theory Spec2Isabelle
  imports Complex_Main "HOL-Library.Word" "HOL-Library.AList"
begin

unbundle bit_operations_syntax

section \<open>Common data of the gateway\<close>

text \<open>
  Byte slices and Go strings are both lists of bytes. An \<open>http.Header\<close> is a Go map
  from a canonical header name to the list of its values; since \<open>flushTo\<close> ranges
  over it, it is kept as an association list with the operations of \<open>AList\<close>.
  Header names are taken in canonical MIME form, which is what \<open>Set\<close>, \<open>Add\<close>
  and \<open>Del\<close> store.
\<close>

type_synonym bytes = string

type_synonym header = "(string \<times> string list) list"

text \<open>The values handed to \<open>c.JSON\<close> (\<open>gin.H\<close> maps, strings, numbers, structs).\<close>

datatype json =
    JString string
  | JNumber int
  | JBool bool
  | JNull
  | JObject "(string \<times> json) list"

text \<open>
  Go \<open>error\<close> values as far as the gateway inspects them: the two context sentinels,
  any other leaf error, and \<open>fmt.Errorf("...: %w", err)\<close>, which wraps.
  \<open>errors.Is(err, context.DeadlineExceeded)\<close> walks the chain of wrapped errors.
\<close>

datatype go_error =
    DeadlineExceeded
  | Canceled
  | Opaque string
  | Errorf string go_error

fun is_DeadlineExceeded :: "go_error \<Rightarrow> bool" where
  "is_DeadlineExceeded DeadlineExceeded = True"
| "is_DeadlineExceeded Canceled = False"
| "is_DeadlineExceeded (Opaque _) = False"
| "is_DeadlineExceeded (Errorf _ e) = is_DeadlineExceeded e"

text \<open>\<open>err.Error()\<close>: the message of an error, a wrapped error after its context.\<close>

fun error_text :: "go_error \<Rightarrow> string" where
  "error_text DeadlineExceeded = ''context deadline exceeded''"
| "error_text Canceled = ''context canceled''"
| "error_text (Opaque m) = m"
| "error_text (Errorf m e) = m @ '': '' @ error_text e"

text \<open>
  \<open>strconv.Itoa\<close>: the decimal rendering of an integer.
\<close>

fun digits :: "nat \<Rightarrow> string" where
  "digits n = (if n < 10 then [char_of (48 + n)]
               else digits (n div 10) @ [char_of (48 + n mod 10)])"

definition Itoa :: "int \<Rightarrow> string" where
  "Itoa i = (if i < 0 then CHR ''-'' # digits (nat (- i)) else digits (nat i))"

subsection \<open>Calls on a response writer\<close>

text \<open>
  What a handler or a middleware does to the \<open>gin.ResponseWriter\<close> it holds, one
  constructor per call. \<open>HeaderDefault\<close> is the assignment gin's renderer makes to
  \<open>Content-Type\<close> when the header has no value yet.
\<close>

datatype wop =
    HeaderSet string string
  | HeaderAdd string string
  | HeaderDel string
  | HeaderDefault string string
  | WriteHeader int
  | WriteHeaderNow
  | Write bytes
  | WriteString string

definition header_values :: "header \<Rightarrow> string \<Rightarrow> string list" where
  "header_values h k = (case map_of h k of None \<Rightarrow> [] | Some vv \<Rightarrow> vv)"

definition header_Set :: "string \<Rightarrow> string \<Rightarrow> header \<Rightarrow> header" where
  "header_Set k v h = AList.update k [v] h"

definition header_Add :: "string \<Rightarrow> string \<Rightarrow> header \<Rightarrow> header" where
  "header_Add k v h = AList.update k (header_values h k @ [v]) h"

definition header_Del :: "string \<Rightarrow> header \<Rightarrow> header" where
  "header_Del k h = AList.delete k h"

definition header_Default :: "string \<Rightarrow> string \<Rightarrow> header \<Rightarrow> header" where
  "header_Default k v h = (if header_values h k = [] then AList.update k [v] h else h)"

fun header_op :: "wop \<Rightarrow> header \<Rightarrow> header" where
  "header_op (HeaderSet k v) h = header_Set k v h"
| "header_op (HeaderAdd k v) h = header_Add k v h"
| "header_op (HeaderDel k) h = header_Del k h"
| "header_op (HeaderDefault k v) h = header_Default k v h"
| "header_op _ h = h"

text \<open>
  \<open>c.Header(key, value)\<close> of gin deletes the header when the value is empty and sets
  it otherwise. \<open>c.JSON(code, obj)\<close> records the status, defaults the content type
  and writes the encoding of \<open>obj\<close>; when the encoder fails, nothing is written.
  The encoder \<open>enc\<close> stands for \<open>json.Marshal\<close>, which gin's renderer calls in a
  default build. Every status the gateway passes to \<open>c.JSON\<close> allows a body.
\<close>

definition c_Header :: "string \<Rightarrow> string \<Rightarrow> wop list" where
  "c_Header k v = (if v = [] then [HeaderDel k] else [HeaderSet k v])"

definition c_JSON :: "(json \<Rightarrow> go_error + bytes) \<Rightarrow> int \<Rightarrow> json \<Rightarrow> wop list" where
  "c_JSON enc code obj =
     [WriteHeader code,
      HeaderDefault ''Content-Type'' ''application/json; charset=utf-8''] @
     (case enc obj of Inr data \<Rightarrow> [Write data] | Inl _ \<Rightarrow> [])"

subsection \<open>The transport\<close>

text \<open>
  The real writer behind the middlewares is gin's \<open>responseWriter\<close> over the
  \<open>http.ResponseWriter\<close> of the server. gin holds the pending status (200 at first)
  and whether it has written; \<open>WriteHeader\<close> changes the pending status only for a
  positive code and only before anything is written. The server's writer holds the header
  map and sends status line and headers once: its \<open>WriteHeader\<close> panics for a code
  outside 100..999, sends an informational response for 1xx other than 101 and leaves
  the final header open, and otherwise fixes status and headers; its \<open>Write\<close> sends
  status 200 first when no header is fixed yet and drops the bytes when the fixed status
  allows no body (1xx, 204, 304). A panic unwinds the caller, so the calls after it are
  not made. The request is taken to have a method other than \<open>HEAD\<close>, for which the
  server sends no body at all.
\<close>

record transport =
  t_header :: header
  t_status :: int
  t_written :: bool
  t_info :: "int list"
  t_sent :: "(int \<times> header) option"
  t_body :: bytes
  t_panic :: bool

definition new_transport :: transport where
  "new_transport =
     \<lparr> t_header = [], t_status = 200, t_written = False, t_info = [], t_sent = None,
       t_body = [], t_panic = False \<rparr>"

definition bodyAllowedForStatus :: "int \<Rightarrow> bool" where
  "bodyAllowedForStatus status \<longleftrightarrow>
     \<not> (100 \<le> status \<and> status \<le> 199) \<and> status \<noteq> 204 \<and> status \<noteq> 304"

definition http_WriteHeader :: "int \<Rightarrow> transport \<Rightarrow> transport" where
  "http_WriteHeader code t =
     (if t_sent t \<noteq> None then t
      else if code < 100 \<or> code > 999 then t\<lparr> t_panic := True \<rparr>
      else if 100 \<le> code \<and> code \<le> 199 \<and> code \<noteq> 101 then t\<lparr> t_info := t_info t @ [code] \<rparr>
      else t\<lparr> t_sent := Some (code, t_header t) \<rparr>)"

definition http_Write :: "bytes \<Rightarrow> transport \<Rightarrow> transport" where
  "http_Write data t =
     (let t' = (if t_sent t = None then http_WriteHeader 200 t else t) in
      if data = [] then t'
      else (case t_sent t' of
              None \<Rightarrow> t'
            | Some (status, _) \<Rightarrow>
                if bodyAllowedForStatus status then t'\<lparr> t_body := t_body t' @ data \<rparr> else t'))"

definition gin_WriteHeaderNow :: "transport \<Rightarrow> transport" where
  "gin_WriteHeaderNow t =
     (if t_written t then t else http_WriteHeader (t_status t) (t\<lparr> t_written := True \<rparr>))"

definition gin_Write :: "bytes \<Rightarrow> transport \<Rightarrow> transport" where
  "gin_Write data t =
     (let t' = gin_WriteHeaderNow t in if t_panic t' then t' else http_Write data t')"

definition gin_WriteHeader :: "int \<Rightarrow> transport \<Rightarrow> transport" where
  "gin_WriteHeader code t =
     (if code > 0 \<and> t_status t \<noteq> code
      then (if t_written t then t else t\<lparr> t_status := code \<rparr>)
      else t)"

fun t_call :: "wop \<Rightarrow> transport \<Rightarrow> transport" where
  "t_call (WriteHeader code) t = gin_WriteHeader code t"
| "t_call WriteHeaderNow t = gin_WriteHeaderNow t"
| "t_call (Write d) t = gin_Write d t"
| "t_call (WriteString s) t = gin_Write s t"
| "t_call hop t = t\<lparr> t_header := header_op hop (t_header t) \<rparr>"

definition t_op :: "wop \<Rightarrow> transport \<Rightarrow> transport" where
  "t_op w t = (if t_panic t then t else t_call w t)"

definition t_ops :: "wop list \<Rightarrow> transport \<Rightarrow> transport" where
  "t_ops ops t = foldl (\<lambda>t' w. t_op w t') t ops"

text \<open>What the client has received: the status line and headers that were sent, and the body.\<close>

definition client_view :: "transport \<Rightarrow> ((int \<times> header) option \<times> bytes)" where
  "client_view t = (t_sent t, t_body t)"

section \<open>Rate limiting middleware (main.go)\<close>









section \<open>Request timeout middleware (middleware.go)\<close>

subsection \<open>Deadline of the request context\<close>

text \<open>
  Instants and durations are integers (nanoseconds). A context is looked at only
  through its deadline, if it has one. \<open>context.WithDeadline(parent, d)\<close> of the Go
  library keeps the parent's deadline when that one is before \<open>d\<close>, and
  \<open>context.WithTimeout(parent, t)\<close> is \<open>WithDeadline(parent, time.Now().Add(t))\<close>.
\<close>

type_synonym deadline = "int option"

definition WithDeadline :: "deadline \<Rightarrow> int \<Rightarrow> deadline" where
  "WithDeadline parent d =
     (case parent of
        Some cur \<Rightarrow> if cur < d then Some cur else Some d
      | None \<Rightarrow> Some d)"

definition WithTimeout :: "deadline \<Rightarrow> int \<Rightarrow> int \<Rightarrow> deadline" where
  "WithTimeout parent now timeout = WithDeadline parent (now + timeout)"

text \<open>
  The first part of \<open>RequestTimeoutMiddleware\<close>: the context the request goes on
  with, and whether a \<open>cancel\<close> function was obtained. \<open>now\<close> is \<open>time.Now()\<close>,
  which every branch reads once.
\<close>

definition RequestTimeoutMiddleware_ctx :: "int \<Rightarrow> int \<Rightarrow> deadline \<Rightarrow> deadline \<times> bool" where
  "RequestTimeoutMiddleware_ctx timeout now parent =
     (if timeout \<le> 0 then (WithTimeout parent now timeout, True)
      else (case parent of
              Some d \<Rightarrow>
                (let desired = now + timeout
                 in if d < desired then (parent, False)
                    else (WithDeadline parent desired, True))
            | None \<Rightarrow> (WithTimeout parent now timeout, True)))"

subsection \<open>The buffered writer\<close>

record bufferedWriter =
  buf :: bytes
  head :: header
  status :: int
  wrote :: bool
  closed :: bool

definition newBufferedWriter :: bufferedWriter where
  "newBufferedWriter = \<lparr> buf = [], head = [], status = 200, wrote = False, closed = False \<rparr>"

text \<open>
  \<open>Write\<close> and \<open>WriteString\<close> return the number of bytes taken and the error
  (\<open>None\<close> for \<open>nil\<close>), together with the writer after the call.
\<close>

definition bw_Write :: "bytes \<Rightarrow> bufferedWriter \<Rightarrow> (nat \<times> go_error option) \<times> bufferedWriter" where
  "bw_Write data b =
     (if closed b then ((0, None), b)
      else ((length data, None), b\<lparr> wrote := True, buf := buf b @ data \<rparr>))"

definition bw_WriteString :: "string \<Rightarrow> bufferedWriter \<Rightarrow> (nat \<times> go_error option) \<times> bufferedWriter" where
  "bw_WriteString s b =
     (if closed b then ((0, None), b)
      else ((length s, None), b\<lparr> wrote := True, buf := buf b @ s \<rparr>))"

definition bw_WriteHeader :: "int \<Rightarrow> bufferedWriter \<Rightarrow> bufferedWriter" where
  "bw_WriteHeader statusCode b = (if closed b then b else b\<lparr> status := statusCode \<rparr>)"

definition bw_WriteHeaderNow :: "bufferedWriter \<Rightarrow> bufferedWriter" where
  "bw_WriteHeaderNow b =
     (let b' = (if status b = 0 then b\<lparr> status := 200 \<rparr> else b) in b'\<lparr> wrote := True \<rparr>)"

definition Status :: "bufferedWriter \<Rightarrow> int" where
  "Status b = (if status b = 0 then 200 else status b)"

text \<open>
  A call on the \<open>responseWriterShim\<close>, which forwards to the buffered writer.
  \<open>Header()\<close> hands out the header map itself, so the caller's change lands in \<open>head\<close>.
\<close>

fun bw_op :: "wop \<Rightarrow> bufferedWriter \<Rightarrow> bufferedWriter" where
  "bw_op (Write d) b = snd (bw_Write d b)"
| "bw_op (WriteString s) b = snd (bw_WriteString s b)"
| "bw_op (WriteHeader c) b = bw_WriteHeader c b"
| "bw_op WriteHeaderNow b = bw_WriteHeaderNow b"
| "bw_op hop b = b\<lparr> head := header_op hop (head b) \<rparr>"

text \<open>\<open>flushTo\<close>, as the calls it makes on the writer it is given.\<close>

definition flushTo :: "bufferedWriter \<Rightarrow> wop list" where
  "flushTo b =
     concat (map (\<lambda>(k, vv). map (HeaderAdd k) vv) (head b)) @
     [WriteHeader (Status b), Write (buf b)]"

subsection \<open>The middleware as a state machine\<close>

text \<open>
  After the handler goroutine is started, several parties act on shared state: the
  handler, which writes through \<open>c.Writer\<close> of the \<open>*gin.Context\<close> it was given;
  the handler's end (\<open>close(finished)\<close>) or its panic; the request context, whose
  \<open>Done\<close> channel closes at the deadline; and gin, which takes the context back into
  its pool when the chain has returned and hands it to a later request, resetting
  \<open>c.Writer\<close> to that request's writer. An event is one such action in the order
  in which the middleware's \<open>select\<close> and the writers' locks serialise them.
  \<open>c.Writer\<close> is the shim over the buffer from the start, the original writer again
  after the panic branch, and the writer of the later request once the context is
  recycled.
\<close>

datatype phase = RUNNING | COMPLETED | TIMED_OUT | PANICKED string

datatype event =
    Handler wop
  | Finished
  | Panic string
  | Done
  | Recycle transport

datatype cwriter = Shim | Orig | Later transport

record guard =
  bw :: bufferedWriter
  origWriter :: transport
  phase :: phase
  c_Writer :: cwriter

definition timeout_body :: bytes where
  "timeout_body =
     ''{\"error\":\"Gateway Timeout\",\"message\":\"Request exceeded maximum allowed time\"}''"

definition timeout_response :: "wop list" where
  "timeout_response =
     [HeaderSet ''Content-Type'' ''application/json; charset=utf-8'',
      WriteHeader 504,
      Write timeout_body]"

definition guard_start :: "transport \<Rightarrow> guard" where
  "guard_start t =
     \<lparr> bw = newBufferedWriter, origWriter = t, phase = RUNNING, c_Writer = Shim \<rparr>"

fun step :: "event \<Rightarrow> guard \<Rightarrow> guard" where
  "step (Handler w) g =
     (case c_Writer g of
        Shim \<Rightarrow> g\<lparr> bw := bw_op w (bw g) \<rparr>
      | Orig \<Rightarrow> g\<lparr> origWriter := t_op w (origWriter g) \<rparr>
      | Later t \<Rightarrow> g\<lparr> c_Writer := Later (t_op w t) \<rparr>)"
| "step Finished g =
     (if phase g = RUNNING
      then g\<lparr> origWriter := t_ops (flushTo (bw g)) (origWriter g), phase := COMPLETED \<rparr>
      else g)"
| "step (Panic p) g =
     (if phase g = RUNNING then g\<lparr> c_Writer := Orig, phase := PANICKED p \<rparr> else g)"
| "step Done g =
     (if phase g = RUNNING
      then g\<lparr> bw := (bw g)\<lparr> closed := True \<rparr>,
               origWriter := t_ops timeout_response (origWriter g),
               phase := TIMED_OUT \<rparr>
      else g)"
| "step (Recycle t) g = (if phase g = RUNNING then g else g\<lparr> c_Writer := Later t \<rparr>)"

definition run :: "event list \<Rightarrow> guard \<Rightarrow> guard" where
  "run es g = foldl (\<lambda>g' e. step e g') g es"

fun is_Handler :: "event \<Rightarrow> bool" where
  "is_Handler (Handler _) = True"
| "is_Handler _ = False"

text \<open>A transport on which nothing has been written yet.\<close>

definition fresh :: "transport \<Rightarrow> bool" where
  "fresh t \<longleftrightarrow> t_sent t = None \<and> t_body t = [] \<and> \<not> t_written t \<and> \<not> t_panic t"

text \<open>
  A status that the transport sends as the final status and that allows a body.
\<close>

definition final_status_with_body :: "int \<Rightarrow> bool" where
  "final_status_with_body code \<longleftrightarrow> 200 \<le> code \<and> code \<le> 999 \<and> code \<noteq> 204 \<and> code \<noteq> 304"

text \<open>
  Once the middleware has flushed or timed out, \<open>c.Writer\<close> is never the original
  writer again, so nothing touches the transport of this request any more.
\<close>

definition settled :: "guard \<Rightarrow> bool" where
  "settled g \<longleftrightarrow> (phase g = COMPLETED \<or> phase g = TIMED_OUT) \<and> c_Writer g \<noteq> Orig"

text \<open>The header map of a writer after \<open>flushTo\<close> has added the buffered values to it.\<close>

definition add_all :: "string \<Rightarrow> string list \<Rightarrow> header \<Rightarrow> header" where
  "add_all k vv h = foldl (\<lambda>h' v. header_Add k v h') h vv"

definition flush_header :: "header \<Rightarrow> header \<Rightarrow> header" where
  "flush_header hs h = foldl (\<lambda>h' (k, vv). add_all k vv h') h hs"

section \<open>Configuration (main.go, config.go)\<close>

text \<open>
  The environment as \<open>os.Getenv\<close> shows it: a variable that is not set reads as the
  empty string. \<open>strconv.Atoi\<close> accepts an optional sign and decimal digits within
  the range of a 64-bit \<open>int\<close>.
\<close>

type_synonym env = "string \<Rightarrow> string"

definition digit_of :: "char \<Rightarrow> nat option" where
  "digit_of c = (let n = (of_char c :: nat) in if 48 \<le> n \<and> n \<le> 57 then Some (n - 48) else None)"

fun parse_digits :: "string \<Rightarrow> nat \<Rightarrow> nat option" where
  "parse_digits [] acc = Some acc"
| "parse_digits (c # cs) acc =
     (case digit_of c of None \<Rightarrow> None | Some d \<Rightarrow> parse_digits cs (10 * acc + d))"

definition Atoi :: "string \<Rightarrow> int option" where
  "Atoi s =
     (let (neg, ds) =
            (case s of
               [] \<Rightarrow> (False, s)
             | c # r \<Rightarrow> if c = CHR ''-'' then (True, r)
                        else if c = CHR ''+'' then (False, r) else (False, s))
      in if ds = [] then None
         else (case parse_digits ds 0 of
                 None \<Rightarrow> None
               | Some n \<Rightarrow>
                   (let v = (if neg then - int n else int n)
                    in if - (2 ^ 63) \<le> v \<and> v < 2 ^ 63 then Some v else None)))"

definition getEnvAsInt :: "env \<Rightarrow> string \<Rightarrow> int \<Rightarrow> int" where
  "getEnvAsInt e key defaultValue =
     (if e key = [] then defaultValue
      else (case Atoi (e key) of None \<Rightarrow> defaultValue | Some val \<Rightarrow> val))"

definition getRecipientAddress :: "env \<Rightarrow> string" where
  "getRecipientAddress e =
     (if e ''RECIPIENT_ADDRESS'' = [] then ''0x2cAF48b4BA1C58721a85dFADa5aC01C2DFa62219''
      else e ''RECIPIENT_ADDRESS'')"

definition getPaymentAmount :: "env \<Rightarrow> string" where
  "getPaymentAmount e = (if e ''PAYMENT_AMOUNT'' = [] then ''0.001'' else e ''PAYMENT_AMOUNT'')"

definition getChainID :: "env \<Rightarrow> int" where
  "getChainID e =
     (if e ''CHAIN_ID'' = [] then 8453
      else (case Atoi (e ''CHAIN_ID'') of None \<Rightarrow> 8453 | Some chainID \<Rightarrow> chainID))"

text \<open>
  Durations in nanoseconds; \<open>time.Second\<close> is \<open>10^9\<close>. \<open>time.Duration\<close> is an
  \<open>int64\<close>, so \<open>time.Duration(ttlSeconds) * time.Second\<close> wraps around.
\<close>

definition Duration_seconds :: "int \<Rightarrow> int" where
  "Duration_seconds seconds = sint ((word_of_int seconds :: 64 word) * 1000000000)"

definition getReceiptTTL :: "env \<Rightarrow> int" where
  "getReceiptTTL e = Duration_seconds (getEnvAsInt e ''RECEIPT_TTL'' 86400)"

definition ToLower :: "string \<Rightarrow> string" where
  "ToLower s =
     map (\<lambda>c. let n = (of_char c :: nat) in if 65 \<le> n \<and> n \<le> 90 then char_of (n + 32) else c) s"

definition getCacheEnabled :: "env \<Rightarrow> bool" where
  "getCacheEnabled e =
     (let enabled = ToLower (e ''CACHE_ENABLED'') in enabled = ''true'' \<or> enabled = ''1'')"

section \<open>Payment verification and receipts (main.go)\<close>

record PaymentContext =
  Recipient :: string
  Token :: string
  Amount :: string
  Nonce :: string
  ChainID :: int

record VerifyRequest =
  Context :: PaymentContext
  Signature :: string

record VerifyResponse =
  IsValid :: bool
  RecoveredAddress :: string
  Error :: string

text \<open>
  The receipt types as \<open>validateReceipt\<close> reads them. Instants are nanoseconds
  counted from Go's zero \<open>time.Time\<close>, so \<open>IsZero\<close> is equality with 0.
\<close>

record PaymentDetails =
  Payer :: string
  p_Recipient :: string
  p_Amount :: string
  p_Token :: string
  p_Nonce :: string

record ServiceDetails =
  Endpoint :: string
  RequestHash :: string
  ResponseHash :: string

record Receipt =
  ID :: string
  Version :: string
  Timestamp :: int
  Payment :: PaymentDetails
  Service :: ServiceDetails

record SignedReceipt =
  Receipt :: Receipt
  ReceiptSignature :: string
  ServerPublicKey :: string

record receiptEntry =
  receipt :: SignedReceipt
  expiresAt :: int

record CachedResponse =
  Result :: string
  CachedAt :: int

text \<open>
  The library functions the gateway calls on bytes: \<open>json.Marshal\<close> on response maps,
  on the cache entry and on the receipt, \<open>json.Unmarshal\<close> into a
  \<open>SummarizeRequest\<close> (giving its \<open>Text\<close>), into a \<open>CachedResponse\<close> and into a
  \<open>map[string]interface{}\<close>, base64 and the hex SHA-256 digest.
\<close>

record codec =
  Marshal :: "json \<Rightarrow> go_error + bytes"
  MarshalCached :: "CachedResponse \<Rightarrow> go_error + bytes"
  MarshalReceipt :: "SignedReceipt \<Rightarrow> go_error + bytes"
  UnmarshalSummarize :: "bytes \<Rightarrow> go_error + string"
  UnmarshalCached :: "bytes \<Rightarrow> go_error + CachedResponse"
  UnmarshalMap :: "bytes \<Rightarrow> go_error + (string \<times> json) list"
  Base64 :: "bytes \<Rightarrow> string"
  SHA256hex :: "bytes \<Rightarrow> string"

text \<open>
  How the call to the verifier ends: building the request fails, the HTTP exchange
  fails (this is where an elapsed deadline shows, as an error wrapping
  \<open>context.DeadlineExceeded\<close>), or a response arrives with a status and a body that
  decodes to a \<open>VerifyResponse\<close> or does not.
\<close>

datatype verifier_outcome =
    MarshalFailed go_error
  | NewRequestFailed go_error
  | DoFailed go_error
  | Responded int "go_error + VerifyResponse"

text \<open>How reading the request body ends.\<close>

datatype body_read = Bytes bytes | ReadFailed go_error

datatype read_error = MaxBytesError | OtherReadError go_error

definition maxBodySize :: nat where
  "maxBodySize = 10 * 1024 * 1024"

definition ReadAll_MaxBytes :: "body_read \<Rightarrow> read_error + bytes" where
  "ReadAll_MaxBytes rd =
     (case rd of
        Bytes data \<Rightarrow> if length data > maxBodySize then Inl MaxBytesError else Inr data
      | ReadFailed e \<Rightarrow> Inl (OtherReadError e))"

text \<open>
  The collaborators of one request: the verifier service (given the URL and the
  request sent), the AI provider as \<open>callOpenRouter\<close> reports it, whether the request
  context has ended with \<open>DeadlineExceeded\<close> when the AI call returns, Redis (a failure
  of the \<open>Get\<close> or \<open>Set\<close> command, if any), the UUID drawn for a payment challenge, the
  wall clock, and what receipt issuance draws: an id and the server key's signature.
\<close>

record collab =
  verifier :: "string \<Rightarrow> VerifyRequest \<Rightarrow> verifier_outcome"
  callOpenRouter :: "string \<Rightarrow> go_error + string"
  ctx_deadline_exceeded :: bool
  redis_get_error :: "string \<Rightarrow> go_error option"
  redis_set_error :: "string \<Rightarrow> go_error option"
  new_uuid :: string
  clock :: int
  receipt_id :: string
  receipt_version :: string
  sign_receipt :: "Receipt \<Rightarrow> go_error + (string \<times> string)"
  content_hash :: "bytes \<Rightarrow> string"

text \<open>A request to \<open>/api/ai/summarize\<close>. A server request always has a body to read.\<close>

record request =
  r_signature :: string
  r_nonce :: string
  r_path :: string
  r_contentLength :: int
  r_body :: body_read

text \<open>
  The gateway's own state: the Redis client (present or \<open>nil\<close>) with the contents of
  the cache, the receipt store, and the warnings \<open>storeInCache\<close> logs.
\<close>

record gateway =
  redisClient :: bool
  cache :: "string \<rightharpoonup> bytes"
  receiptStore :: "string \<rightharpoonup> receiptEntry"
  warnings :: "string list"

definition verifyPayment ::
  "env \<Rightarrow> collab \<Rightarrow> string \<Rightarrow> string \<Rightarrow> go_error + (VerifyResponse \<times> PaymentContext)" where
  "verifyPayment e co signature nonce =
     (let paymentCtx = \<lparr> Recipient = getRecipientAddress e, Token = ''USDC'',
                          Amount = getPaymentAmount e, Nonce = nonce, ChainID = getChainID e \<rparr>;
          verifyReq = \<lparr> Context = paymentCtx, Signature = signature \<rparr>;
          verifierURL = (if e ''VERIFIER_URL'' = [] then ''http://127.0.0.1:3002''
                         else e ''VERIFIER_URL'')
      in case verifier co (verifierURL @ ''/verify'') verifyReq of
           MarshalFailed err \<Rightarrow> Inl (Errorf ''marshal verification request'' err)
         | NewRequestFailed err \<Rightarrow> Inl (Errorf ''create verifier request'' err)
         | DoFailed err \<Rightarrow> Inl (Errorf ''verifier request failed'' err)
         | Responded code decoded \<Rightarrow>
             if code \<noteq> 200 then Inl (Opaque (''verifier returned status '' @ Itoa code))
             else (case decoded of
                     Inl err \<Rightarrow> Inl (Errorf ''decode verification response'' err)
                   | Inr verifyResp \<Rightarrow> Inr (verifyResp, paymentCtx)))"

definition createPaymentContext :: "env \<Rightarrow> collab \<Rightarrow> PaymentContext" where
  "createPaymentContext e co =
     \<lparr> Recipient = getRecipientAddress e, Token = ''USDC'', Amount = getPaymentAmount e,
       Nonce = new_uuid co, ChainID = getChainID e \<rparr>"

definition json_of_PaymentContext :: "PaymentContext \<Rightarrow> json" where
  "json_of_PaymentContext pc =
     JObject [(''recipient'', JString (Recipient pc)), (''token'', JString (Token pc)),
              (''amount'', JString (Amount pc)), (''nonce'', JString (Nonce pc)),
              (''chainId'', JNumber (ChainID pc))]"

text \<open>
  Modelled from the spec: \<open>GenerateReceipt\<close>, the receipt issuance of the receipt store,
  whose source is not at hand. Issuance computes content hashes of the exact request and
  response bytes, assembles the receipt from the payment context, the signer address
  and the endpoint path under a freshly generated id, and signs it with the server's
  signing key; it fails when the key cannot be loaded.
\<close>

definition GenerateReceipt ::
  "collab \<Rightarrow> PaymentContext \<Rightarrow> string \<Rightarrow> string \<Rightarrow> bytes \<Rightarrow> bytes \<Rightarrow> go_error + SignedReceipt" where
  "GenerateReceipt co paymentCtx payer endpoint requestBody responseBody =
     (let rc = \<lparr> ID = receipt_id co, Version = receipt_version co, Timestamp = clock co,
                  Payment = \<lparr> Payer = payer, p_Recipient = Recipient paymentCtx,
                              p_Amount = Amount paymentCtx, p_Token = Token paymentCtx,
                              p_Nonce = Nonce paymentCtx \<rparr>,
                  Service = \<lparr> Endpoint = endpoint,
                              RequestHash = content_hash co requestBody,
                              ResponseHash = content_hash co responseBody \<rparr> \<rparr>
      in case sign_receipt co rc of
           Inl err \<Rightarrow> Inl err
         | Inr (sig, pub) \<Rightarrow>
             Inr \<lparr> Receipt = rc, ReceiptSignature = sig, ServerPublicKey = pub \<rparr>)"

definition HasPrefix :: "string \<Rightarrow> string \<Rightarrow> bool" where
  "HasPrefix s p = (take (length p) s = p)"

definition validateReceipt :: "SignedReceipt \<Rightarrow> go_error option" where
  "validateReceipt sr =
     (let rc = Receipt sr in
      if ID rc = [] then Some (Opaque ''receipt ID is empty'')
      else if \<not> HasPrefix (ID rc) ''rcpt_'' then Some (Opaque (''receipt ID must start with '' @ [CHR 0x27] @ ''rcpt_'' @ [CHR 0x27]))
      else if Version rc = [] then Some (Opaque ''receipt version is empty'')
      else if Timestamp rc = 0 then Some (Opaque ''receipt timestamp is zero'')
      else if Payer (Payment rc) = [] then Some (Opaque ''payer address is empty'')
      else if p_Recipient (Payment rc) = [] then Some (Opaque ''recipient address is empty'')
      else if p_Amount (Payment rc) = [] then Some (Opaque ''payment amount is empty'')
      else if p_Token (Payment rc) = [] then Some (Opaque ''token is empty'')
      else if p_Nonce (Payment rc) = [] then Some (Opaque ''nonce is empty'')
      else if Endpoint (Service rc) = [] then Some (Opaque ''service endpoint is empty'')
      else if RequestHash (Service rc) = [] then Some (Opaque ''request hash is empty'')
      else if ResponseHash (Service rc) = [] then Some (Opaque ''response hash is empty'')
      else if ReceiptSignature sr = [] then Some (Opaque ''signature is empty'')
      else if \<not> HasPrefix (ReceiptSignature sr) ''0x'' then Some (Opaque (''signature must start with '' @ [CHR 0x27] @ ''0x'' @ [CHR 0x27]))
      else if ServerPublicKey sr = [] then Some (Opaque ''server public key is empty'')
      else if \<not> HasPrefix (ServerPublicKey sr) ''0x'' then Some (Opaque (''server public key must start with '' @ [CHR 0x27] @ ''0x'' @ [CHR 0x27]))
      else None)"

definition storeReceipt :: "collab \<Rightarrow> SignedReceipt \<Rightarrow> int \<Rightarrow> gateway \<Rightarrow> go_error + gateway" where
  "storeReceipt co sr ttl g =
     (case validateReceipt sr of
        Some err \<Rightarrow> Inl (Errorf ''invalid receipt format'' err)
      | None \<Rightarrow>
          Inr (g\<lparr> receiptStore := (receiptStore g)(ID (Receipt sr) \<mapsto>
                     \<lparr> receipt = sr, expiresAt = clock co + ttl \<rparr>) \<rparr>))"

text \<open>
  \<open>generateAndSendReceipt\<close>: the calls it makes on the writer, the error it returns
  (\<open>None\<close> for \<open>nil\<close>) and the gateway afterwards.
\<close>

definition generateAndSendReceipt ::
  "env \<Rightarrow> codec \<Rightarrow> collab \<Rightarrow> string \<Rightarrow> PaymentContext \<Rightarrow> string \<Rightarrow> bytes \<Rightarrow> string \<Rightarrow> gateway \<Rightarrow>
     wop list \<times> go_error option \<times> gateway" where
  "generateAndSendReceipt e cd co path paymentCtx recoveredAddr requestBody aiResult g =
     (let responseMap = JObject [(''result'', JString aiResult)] in
      case Marshal cd responseMap of
        Inl err \<Rightarrow>
          (c_JSON (Marshal cd) 500 (JObject [(''error'', JString ''Failed to encode response'')]),
           Some err, g)
      | Inr responseBody \<Rightarrow>
          (case GenerateReceipt co paymentCtx recoveredAddr path requestBody responseBody of
             Inl err \<Rightarrow>
               (c_JSON (Marshal cd) 500
                  (JObject [(''error'', JString ''Failed to generate receipt''),
                            (''details'', JString (error_text err))]),
                Some err, g)
           | Inr sr \<Rightarrow>
               (case storeReceipt co sr (getReceiptTTL e) g of
                  Inl err \<Rightarrow>
                    (c_JSON (Marshal cd) 500 (JObject [(''error'', JString ''Failed to store receipt'')]),
                     Some err, g)
                | Inr g' \<Rightarrow>
                    (case MarshalReceipt cd sr of
                       Inl err \<Rightarrow>
                         (c_JSON (Marshal cd) 500
                            (JObject [(''error'', JString ''Failed to encode receipt'')]),
                          Some err, g')
                     | Inr receiptJSON \<Rightarrow>
                         (c_Header ''X-402-Receipt'' (Base64 cd receiptJSON) @
                          c_JSON (Marshal cd) 200 responseMap,
                          None, g')))))"

text \<open>
  The two answers to a failed verification call, shared by \<open>handleSummarize\<close> and the
  cache middleware.
\<close>

definition verification_error_response :: "codec \<Rightarrow> go_error \<Rightarrow> wop list" where
  "verification_error_response cd err =
     (if is_DeadlineExceeded err
      then c_JSON (Marshal cd) 504
             (JObject [(''error'', JString ''Gateway Timeout''),
                       (''message'', JString ''Verifier request timed out'')])
      else c_JSON (Marshal cd) 500
             (JObject [(''error'', JString ''Verification Service Failed''),
                       (''message'', JString ''An internal error occurred'')]))"

definition invalid_signature_response :: "codec \<Rightarrow> VerifyResponse \<Rightarrow> wop list" where
  "invalid_signature_response cd verifyResp =
     c_JSON (Marshal cd) 403
       (JObject [(''error'', JString ''Invalid Signature''),
                 (''details'', JString (Error verifyResp))])"

text \<open>
  \<open>handleSummarize\<close>. \<open>ctx_body\<close> is the value the cache middleware left under
  \<open>request_body\<close> in the gin context, if it ran.
\<close>

definition handleSummarize ::
  "env \<Rightarrow> codec \<Rightarrow> collab \<Rightarrow> request \<Rightarrow> bytes option \<Rightarrow> gateway \<Rightarrow> wop list \<times> gateway" where
  "handleSummarize e cd co r ctx_body g =
     (if r_signature r = [] \<or> r_nonce r = [] then
        (c_JSON (Marshal cd) 402
           (JObject [(''error'', JString ''Payment Required''),
                     (''message'', JString ''Please sign the payment context''),
                     (''paymentContext'', json_of_PaymentContext (createPaymentContext e co))]),
         g)
      else
        (case (case ctx_body of
                 Some body \<Rightarrow> Inr body
               | None \<Rightarrow> ReadAll_MaxBytes (r_body r)) of
           Inl MaxBytesError \<Rightarrow>
             (c_JSON (Marshal cd) 413
                (JObject [(''error'', JString ''Payload too large''), (''max_size'', JString ''10MB'')]),
              g)
         | Inl (OtherReadError _) \<Rightarrow>
             (c_JSON (Marshal cd) 500 (JObject [(''error'', JString ''Failed to read request body'')]),
              g)
         | Inr requestBody \<Rightarrow>
             (case verifyPayment e co (r_signature r) (r_nonce r) of
                Inl err \<Rightarrow> (verification_error_response cd err, g)
              | Inr (verifyResp, paymentCtx) \<Rightarrow>
                  if \<not> IsValid verifyResp then (invalid_signature_response cd verifyResp, g)
                  else
                    (case UnmarshalSummarize cd requestBody of
                       Inl _ \<Rightarrow>
                         (c_JSON (Marshal cd) 400 (JObject [(''error'', JString ''Invalid request body'')]),
                          g)
                     | Inr text \<Rightarrow>
                         if text = [] then
                           (c_JSON (Marshal cd) 400
                              (JObject [(''error'', JString ''Invalid request''),
                                        (''message'', JString ''text field cannot be empty'')]),
                            g)
                         else
                           (case callOpenRouter co text of
                              Inl err \<Rightarrow>
                                if is_DeadlineExceeded err \<or> ctx_deadline_exceeded co then
                                  (c_JSON (Marshal cd) 504
                                     (JObject [(''error'', JString ''Gateway Timeout''),
                                               (''message'', JString ''AI request timed out'')]),
                                   g)
                                else
                                  (c_JSON (Marshal cd) 500
                                     (JObject [(''error'', JString ''AI Service Failed''),
                                               (''details'', JString (error_text err))]),
                                   g)
                            | Inr summary \<Rightarrow>
                                (case generateAndSendReceipt e cd co (r_path r) paymentCtx
                                        (RecoveredAddress verifyResp) requestBody summary g of
                                   (ops, _, g') \<Rightarrow> (ops, g')))))))"
section \<open>Response cache (cache.go)\<close>

definition getCacheKey :: "codec \<Rightarrow> string \<Rightarrow> string \<Rightarrow> string" where
  "getCacheKey cd text model =
     (let cacheVersion = ''v1'';
          combined = cacheVersion @ '':'' @ text @ '':'' @ model
      in ''ai:summary:'' @ SHA256hex cd combined)"

text \<open>
  \<open>redisClient.Get\<close>: the command fails, or the key is missing (the error \<open>redis.Nil\<close>),
  or the stored value comes back.
\<close>

definition redis_Get :: "collab \<Rightarrow> string \<Rightarrow> gateway \<Rightarrow> go_error + bytes" where
  "redis_Get co key g =
     (case redis_get_error co key of
        Some err \<Rightarrow> Inl err
      | None \<Rightarrow> (case cache g key of None \<Rightarrow> Inl (Opaque ''redis: nil'') | Some val \<Rightarrow> Inr val))"

definition getFromCache :: "codec \<Rightarrow> collab \<Rightarrow> string \<Rightarrow> gateway \<Rightarrow> go_error + CachedResponse" where
  "getFromCache cd co key g =
     (if \<not> redisClient g then Inl (Opaque ''redis not available'')
      else (case redis_Get co key g of
              Inl err \<Rightarrow> Inl err
            | Inr val \<Rightarrow> UnmarshalCached cd val))"

text \<open>\<open>Time.Unix()\<close>: whole seconds since 1970, for an instant counted from Go's zero time.\<close>

definition Unix :: "int \<Rightarrow> int" where
  "Unix t = t div 1000000000 - 62135596800"

definition safeKeyPrefix :: "string \<Rightarrow> string" where
  "safeKeyPrefix key = (if length key > 32 then take 32 key @ ''...'' else key)"

text \<open>
  \<open>storeInCache\<close> returns nothing; it leaves a new cache entry or a logged warning.
\<close>

definition storeInCache :: "codec \<Rightarrow> collab \<Rightarrow> string \<Rightarrow> string \<Rightarrow> gateway \<Rightarrow> gateway" where
  "storeInCache cd co key data g =
     (if \<not> redisClient g then g
      else
        (let cached = \<lparr> Result = data, CachedAt = Unix (clock co) \<rparr> in
         case MarshalCached cd cached of
           Inl err \<Rightarrow>
             g\<lparr> warnings := warnings g @
                  [''[WARNING] Failed to marshal cache data for key '' @ safeKeyPrefix key @ '': '' @
                   error_text err] \<rparr>
         | Inr jsonData \<Rightarrow>
             (case redis_set_error co key of
                Some err \<Rightarrow>
                  g\<lparr> warnings := warnings g @
                       [''[WARNING] Failed to store in cache for key '' @ safeKeyPrefix key @ '': '' @
                        error_text err] \<rparr>
              | None \<Rightarrow> g\<lparr> cache := (cache g)(key \<mapsto> jsonData) \<rparr>)))"

text \<open>
  The \<open>cachedWriter\<close> passes every call on to the writer it wraps and keeps a copy of
  the bytes of \<open>Write\<close> and \<open>WriteString\<close>.
\<close>

fun written :: "wop list \<Rightarrow> bytes" where
  "written [] = []"
| "written (Write d # ws) = d @ written ws"
| "written (WriteString s # ws) = s @ written ws"
| "written (_ # ws) = written ws"

text \<open>
  \<open>CacheMiddleware\<close>. \<open>b\<close> is the buffered writer behind \<open>c.Writer\<close> when the
  middleware is entered (the route runs under the timeout middleware), which is where
  \<open>Status()\<close> is read after the handler. \<open>next\<close> is the rest of the chain, given the
  \<open>request_body\<close> value of the gin context. The result is the calls made on the
  writer, the cache store handed to a goroutine (key and value), if any, and the gateway.
\<close>

definition payload_too_large :: "codec \<Rightarrow> wop list" where
  "payload_too_large cd =
     c_Header ''Connection'' ''close'' @
     c_JSON (Marshal cd) 413
       (JObject [(''error'', JString ''Payload too large''), (''max_size'', JString ''10MB'')])"

definition CacheMiddleware ::
  "env \<Rightarrow> codec \<Rightarrow> collab \<Rightarrow> request \<Rightarrow> bufferedWriter \<Rightarrow>
     (bytes option \<Rightarrow> gateway \<Rightarrow> wop list \<times> gateway) \<Rightarrow> gateway \<Rightarrow>
     wop list \<times> (string \<times> string) option \<times> gateway" where
  "CacheMiddleware e cd co r b next g =
     (if \<not> redisClient g then
        (case next None g of (ops, g') \<Rightarrow> (ops, None, g'))
      else if r_signature r = [] \<or> r_nonce r = [] then
        (case next None g of (ops, g') \<Rightarrow> (ops, None, g'))
      else if r_contentLength r > int maxBodySize then (payload_too_large cd, None, g)
      else
        (case ReadAll_MaxBytes (r_body r) of
           Inl MaxBytesError \<Rightarrow> (payload_too_large cd, None, g)
         | Inl (OtherReadError _) \<Rightarrow>
             (c_JSON (Marshal cd) 500 (JObject [(''error'', JString ''Failed to read request body'')]),
              None, g)
         | Inr requestBody \<Rightarrow>
             (case UnmarshalSummarize cd requestBody of
                Inl _ \<Rightarrow>
                  (c_JSON (Marshal cd) 400
                     (JObject [(''error'', JString ''Invalid request body''),
                               (''message'', JString ''Request must be valid JSON'')]),
                   None, g)
              | Inr text \<Rightarrow>
                  if text = [] then
                    (c_JSON (Marshal cd) 400
                       (JObject [(''error'', JString ''Invalid request''),
                                 (''message'', JString ''text field cannot be empty'')]),
                     None, g)
                  else
                    (let model = (if e ''OPENROUTER_MODEL'' = [] then ''z-ai/glm-4.5-air:free''
                                  else e ''OPENROUTER_MODEL'');
                         cacheKey = getCacheKey cd text model
                     in case getFromCache cd co cacheKey g of
                          Inr cached \<Rightarrow>
                            (case verifyPayment e co (r_signature r) (r_nonce r) of
                               Inl err \<Rightarrow> (verification_error_response cd err, None, g)
                             | Inr (verifyResp, paymentCtx) \<Rightarrow>
                                 if \<not> IsValid verifyResp
                                 then (invalid_signature_response cd verifyResp, None, g)
                                 else
                                   (case generateAndSendReceipt e cd co (r_path r) paymentCtx
                                           (RecoveredAddress verifyResp) requestBody (Result cached) g of
                                      (ops, _, g') \<Rightarrow> (ops, None, g')))
                        | Inl _ \<Rightarrow>
                            (case next (Some requestBody) g of
                               (ops, g') \<Rightarrow>
                                 (let statusCode = Status (foldl (\<lambda>b' w. bw_op w b') b ops);
                                      bodyBytes = written ops
                                  in if statusCode = 200 then
                                       (case UnmarshalMap cd bodyBytes of
                                          Inr resp \<Rightarrow>
                                            (case map_of resp ''result'' of
                                               Some (JString result) \<Rightarrow> (ops, Some (cacheKey, result), g')
                                             | _ \<Rightarrow> (ops, None, g'))
                                        | Inl _ \<Rightarrow> (ops, None, g'))
                                     else (ops, None, g')))))))"

text \<open>
  The route as \<open>main\<close> registers it, \<open>POST /api/ai/summarize\<close> with or without the cache
  middleware, followed by the goroutine that stores the result. The response is the
  list of calls on the writer; the goroutine only acts on the gateway.
\<close>

definition summarize_route ::
  "env \<Rightarrow> codec \<Rightarrow> collab \<Rightarrow> request \<Rightarrow> bufferedWriter \<Rightarrow> gateway \<Rightarrow> wop list \<times> gateway" where
  "summarize_route e cd co r b g =
     (if getCacheEnabled e then
        (case CacheMiddleware e cd co r b (handleSummarize e cd co r) g of
           (ops, Some (k, v), g') \<Rightarrow> (ops, storeInCache cd co k v g')
         | (ops, None, g') \<Rightarrow> (ops, g'))
      else handleSummarize e cd co r None g)"
section \<open>Notions used in the statements\<close>

text \<open>The status codes a list of writer calls sets, in order.\<close>

fun statuses :: "wop list \<Rightarrow> int list" where
  "statuses [] = []"
| "statuses (WriteHeader c # ws) = c # statuses ws"
| "statuses (_ # ws) = statuses ws"

text \<open>
  The payment context \<open>verifyPayment\<close> builds for a nonce, and the answer of the
  verifier to the request \<open>verifyPayment\<close> sends for a signature and a nonce.
\<close>

definition payment_context :: "env \<Rightarrow> string \<Rightarrow> PaymentContext" where
  "payment_context e nonce =
     \<lparr> Recipient = getRecipientAddress e, Token = ''USDC'', Amount = getPaymentAmount e,
       Nonce = nonce, ChainID = getChainID e \<rparr>"

definition verifier_answer :: "env \<Rightarrow> collab \<Rightarrow> string \<Rightarrow> string \<Rightarrow> verifier_outcome" where
  "verifier_answer e co signature nonce =
     verifier co
       ((if e ''VERIFIER_URL'' = [] then ''http://127.0.0.1:3002'' else e ''VERIFIER_URL'') @ ''/verify'')
       \<lparr> Context = payment_context e nonce, Signature = signature \<rparr>"

text \<open>
  The generic failure of verification: \<open>verifyPayment\<close> returns an error that is not
  a deadline error, and the handler answers 500. The timeout failure: the error is a
  deadline error, and the handler answers 504.
\<close>

definition generic_failure ::
  "env \<Rightarrow> codec \<Rightarrow> collab \<Rightarrow> request \<Rightarrow> bytes option \<Rightarrow> gateway \<Rightarrow> bool" where
  "generic_failure e cd co r cb g \<longleftrightarrow>
     (case verifyPayment e co (r_signature r) (r_nonce r) of
        Inl err \<Rightarrow> \<not> is_DeadlineExceeded err
      | Inr _ \<Rightarrow> False) \<and>
     handleSummarize e cd co r cb g =
       (c_JSON (Marshal cd) 500
          (JObject [(''error'', JString ''Verification Service Failed''),
                    (''message'', JString ''An internal error occurred'')]), g)"

definition timeout_failure ::
  "env \<Rightarrow> codec \<Rightarrow> collab \<Rightarrow> request \<Rightarrow> bytes option \<Rightarrow> gateway \<Rightarrow> bool" where
  "timeout_failure e cd co r cb g \<longleftrightarrow>
     (case verifyPayment e co (r_signature r) (r_nonce r) of
        Inl err \<Rightarrow> is_DeadlineExceeded err
      | Inr _ \<Rightarrow> False) \<and>
     handleSummarize e cd co r cb g =
       (c_JSON (Marshal cd) 504
          (JObject [(''error'', JString ''Gateway Timeout''),
                    (''message'', JString ''Verifier request timed out'')]), g)"

text \<open>
  The lookup the cache middleware makes for a request: the request passes the checks
  that come before the cache, and the cache is asked for the key of its text. A hit
  gives the request body and the cached entry, a miss the body and the key.
\<close>

definition cache_lookup ::
  "env \<Rightarrow> codec \<Rightarrow> collab \<Rightarrow> request \<Rightarrow> gateway \<Rightarrow> (bytes \<times> string \<times> (go_error + CachedResponse)) option" where
  "cache_lookup e cd co r g =
     (if redisClient g \<and> r_signature r \<noteq> [] \<and> r_nonce r \<noteq> [] \<and>
         r_contentLength r \<le> int maxBodySize
      then (case ReadAll_MaxBytes (r_body r) of
              Inl _ \<Rightarrow> None
            | Inr requestBody \<Rightarrow>
                (case UnmarshalSummarize cd requestBody of
                   Inl _ \<Rightarrow> None
                 | Inr text \<Rightarrow>
                     if text = [] then None
                     else (let cacheKey = getCacheKey cd text
                                 (if e ''OPENROUTER_MODEL'' = [] then ''z-ai/glm-4.5-air:free''
                                  else e ''OPENROUTER_MODEL'')
                           in Some (requestBody, cacheKey, getFromCache cd co cacheKey g))))
      else None)"

definition cache_hit :: "env \<Rightarrow> codec \<Rightarrow> collab \<Rightarrow> request \<Rightarrow> gateway \<Rightarrow> (bytes \<times> CachedResponse) option" where
  "cache_hit e cd co r g =
     (case cache_lookup e cd co r g of
        Some (requestBody, _, Inr cached) \<Rightarrow> Some (requestBody, cached)
      | _ \<Rightarrow> None)"

definition cache_miss :: "env \<Rightarrow> codec \<Rightarrow> collab \<Rightarrow> request \<Rightarrow> gateway \<Rightarrow> (bytes \<times> string) option" where
  "cache_miss e cd co r g =
     (case cache_lookup e cd co r g of
        Some (requestBody, cacheKey, Inl _) \<Rightarrow> Some (requestBody, cacheKey)
      | _ \<Rightarrow> None)"

subsection \<open>A small world to run the gateway in\<close>

text \<open>
  Stand-ins for the environment, the libraries and the collaborators, on which the
  definitions above can be evaluated: no variable is set, a response map with a
  \<open>result\<close> is encoded as \<open>R\<close> followed by the result and every other value as \<open>E\<close>,
  and the verifier gives the answer passed in.
\<close>

definition example_env :: env where
  "example_env = (\<lambda>_. [])"

fun example_Marshal :: "json \<Rightarrow> go_error + bytes" where
  "example_Marshal (JObject [(k, JString s)]) = (if k = ''result'' then Inr (CHR ''R'' # s) else Inr ''E'')"
| "example_Marshal _ = Inr ''E''"

fun example_UnmarshalMap :: "bytes \<Rightarrow> go_error + (string \<times> json) list" where
  "example_UnmarshalMap [] = Inl (Opaque ''unexpected end of JSON input'')"
| "example_UnmarshalMap (c # s) = (if c = CHR ''R'' then Inr [(''result'', JString s)] else Inr [])"

definition example_codec :: codec where
  "example_codec =
     \<lparr> Marshal = example_Marshal,
       MarshalCached = (\<lambda>c. Inr (Result c)),
       MarshalReceipt = (\<lambda>sr. Inr (ID (Receipt sr))),
       UnmarshalSummarize = (\<lambda>b. Inr b),
       UnmarshalCached = (\<lambda>b. Inr \<lparr> Result = b, CachedAt = 0 \<rparr>),
       UnmarshalMap = example_UnmarshalMap,
       Base64 = (\<lambda>b. b),
       SHA256hex = (\<lambda>b. b) \<rparr>"

definition example_collab :: "verifier_outcome \<Rightarrow> collab" where
  "example_collab out =
     \<lparr> verifier = (\<lambda>url req. out),
       callOpenRouter = (\<lambda>text. Inr ''short''),
       ctx_deadline_exceeded = False,
       redis_get_error = (\<lambda>k. None),
       redis_set_error = (\<lambda>k. None),
       new_uuid = ''u1'',
       clock = 5,
       receipt_id = ''rcpt_1'',
       receipt_version = ''1'',
       sign_receipt = (\<lambda>rc. Inr (''0xs'', ''0xp'')),
       content_hash = (\<lambda>b. CHR ''#'' # b) \<rparr>"

definition example_request :: request where
  "example_request =
     \<lparr> r_signature = ''0xs'', r_nonce = ''n'', r_path = ''/api/ai/summarize'',
       r_contentLength = 4, r_body = Bytes ''long'' \<rparr>"

definition example_gateway :: gateway where
  "example_gateway =
     \<lparr> redisClient = True, cache = Map.empty, receiptStore = Map.empty, warnings = [] \<rparr>"

definition valid_answer :: VerifyResponse where
  "valid_answer = \<lparr> IsValid = True, RecoveredAddress = ''0xa'', Error = [] \<rparr>"

definition invalid_answer :: VerifyResponse where
  "invalid_answer = \<lparr> IsValid = False, RecoveredAddress = [], Error = ''bad'' \<rparr>"

definition example_gateway_cached :: gateway where
  "example_gateway_cached =
     \<lparr> redisClient = True,
       cache = [''ai:summary:v1:long:z-ai/glm-4.5-air:free'' \<mapsto> ''old''],
       receiptStore = Map.empty, warnings = [] \<rparr>"

definition example_env_cached :: env where
  "example_env_cached = (\<lambda>k. if k = ''CACHE_ENABLED'' then ''true'' else [])"


section \<open>Token bucket limiter\<close>

text \<open>
  Modelled from the spec: the token bucket limiter (\<open>NewTokenBucket\<close>, \<open>Allow\<close>,
  \<open>AllowN\<close>, \<open>GetRemaining\<close>), of which only the tests are at hand. Each key owns a
  bucket that is created on first use at full capacity, the configured burst size.
  Tokens refill continuously at \<open>rpm / 60\<close> tokens per second, capped at capacity; the
  refill is computed from the elapsed time at each admission check. \<open>Allow\<close> succeeds
  iff at least one token is available and deducts one; \<open>AllowN\<close> deducts \<open>n\<close> only if
  \<open>n\<close> are available and deducts nothing otherwise; \<open>GetRemaining\<close> is the floor of
  the available tokens. Token counts and instants (in seconds) are rational numbers
  here, where the spec has floats and wall-clock time.
\<close>

record Bucket =
  tokens :: rat
  lastRefill :: rat
  lastAccess :: rat

record TokenBucket =
  capacity :: int
  refillRate :: rat
  buckets :: "string \<rightharpoonup> Bucket"

definition NewTokenBucket :: "int \<Rightarrow> int \<Rightarrow> TokenBucket" where
  "NewTokenBucket rpm burst =
     \<lparr> capacity = burst, refillRate = of_int rpm / 60, buckets = Map.empty \<rparr>"

definition getBucket :: "TokenBucket \<Rightarrow> string \<Rightarrow> rat \<Rightarrow> Bucket" where
  "getBucket tb key now =
     (case buckets tb key of
        None \<Rightarrow> \<lparr> tokens = of_int (capacity tb), lastRefill = now, lastAccess = now \<rparr>
      | Some b \<Rightarrow> b)"

definition refill :: "TokenBucket \<Rightarrow> Bucket \<Rightarrow> rat \<Rightarrow> Bucket" where
  "refill tb b now =
     b\<lparr> tokens := min (of_int (capacity tb)) (tokens b + (now - lastRefill b) * refillRate tb),
        lastRefill := now \<rparr>"

definition available :: "TokenBucket \<Rightarrow> string \<Rightarrow> rat \<Rightarrow> rat" where
  "available tb key now = tokens (refill tb (getBucket tb key now) now)"

definition AllowN :: "TokenBucket \<Rightarrow> string \<Rightarrow> int \<Rightarrow> rat \<Rightarrow> bool \<times> TokenBucket" where
  "AllowN tb key n now =
     (let b = refill tb (getBucket tb key now) now in
      if of_int n \<le> tokens b
      then (True, tb\<lparr> buckets := (buckets tb)(key \<mapsto> b\<lparr> tokens := tokens b - of_int n,
                                                        lastAccess := now \<rparr>) \<rparr>)
      else (False, tb\<lparr> buckets := (buckets tb)(key \<mapsto> b\<lparr> lastAccess := now \<rparr>) \<rparr>))"

definition TokenBucket_Allow :: "TokenBucket \<Rightarrow> string \<Rightarrow> rat \<Rightarrow> bool \<times> TokenBucket" where
  "TokenBucket_Allow tb key now = AllowN tb key 1 now"

definition TokenBucket_GetRemaining :: "TokenBucket \<Rightarrow> string \<Rightarrow> rat \<Rightarrow> int" where
  "TokenBucket_GetRemaining tb key now = \<lfloor>available tb key now\<rfloor>"

text \<open>A number of admissions one after the other at the same instant, and their results.\<close>

fun admissions :: "TokenBucket \<Rightarrow> string \<Rightarrow> rat \<Rightarrow> nat \<Rightarrow> bool list \<times> TokenBucket" where
  "admissions tb key now 0 = ([], tb)"
| "admissions tb key now (Suc k) =
     (case TokenBucket_Allow tb key now of
        (ok, tb') \<Rightarrow> (case admissions tb' key now k of (oks, tb'') \<Rightarrow> (ok # oks, tb'')))"

text \<open>The tokens held for a key, if it has a bucket.\<close>

definition held :: "TokenBucket \<Rightarrow> string \<Rightarrow> rat option" where
  "held tb key = map_option tokens (buckets tb key)"
section \<open>Properties of the rate limiting middleware\<close>






section \<open>Properties of the timeout middleware\<close>

text \<open>
  Claim C6. The deadline the request goes on with is the earlier of the deadline it
  already carried and \<open>now + timeout\<close>: an earlier deadline is kept as it is, and
  the middleware never leaves the request with a later deadline than it came with.
\<close>

theorem C6_deadline_is_minimum:
  "fst (RequestTimeoutMiddleware_ctx timeout now parent) =
     (case parent of None \<Rightarrow> Some (now + timeout) | Some d \<Rightarrow> Some (min d (now + timeout))) \<and>
   (\<forall>d. parent = Some d \<and> d < now + timeout \<longrightarrow>
        fst (RequestTimeoutMiddleware_ctx timeout now parent) = parent) \<and>
   (\<forall>d. parent = Some d \<longrightarrow>
        (\<exists>d'. fst (RequestTimeoutMiddleware_ctx timeout now parent) = Some d' \<and> d' \<le> d))"
  by (auto simp: RequestTimeoutMiddleware_ctx_def WithTimeout_def WithDeadline_def Let_def min_def
           split: option.splits)

theorem C6_deadline_is_minimum_witness:
  "fst (RequestTimeoutMiddleware_ctx 30 100 (Some 110)) = Some (min 110 (100 + 30)) \<and>
   (110::int) < 100 + 30 \<and>
   fst (RequestTimeoutMiddleware_ctx 30 100 (Some 110)) = Some 110 \<and>
   (\<exists>d'. fst (RequestTimeoutMiddleware_ctx 30 100 (Some 110)) = Some d' \<and> d' \<le> 110)"
  using C6_deadline_is_minimum [of 30 100 "Some 110"] by simp

lemma run_Nil: "run [] g = g"
  by (simp add: run_def)

lemma run_Cons: "run (e # es) g = run es (step e g)"
  by (simp add: run_def)

lemma run_append: "run (xs @ ys) g = run ys (run xs g)"
  by (simp add: run_def)

text \<open>While the chain runs, the handler's calls land in the buffer and nowhere else.\<close>

lemma step_Handler_keeps:
  "is_Handler e \<Longrightarrow> c_Writer g = Shim \<Longrightarrow>
   phase (step e g) = phase g \<and> origWriter (step e g) = origWriter g \<and> c_Writer (step e g) = Shim"
  by (cases e) auto

lemma run_Handler_keeps:
  "\<forall>e\<in>set es. is_Handler e \<Longrightarrow> c_Writer g = Shim \<Longrightarrow>
   phase (run es g) = phase g \<and> origWriter (run es g) = origWriter g \<and> c_Writer (run es g) = Shim"
proof (induction es arbitrary: g)
  case Nil
  then show ?case by (simp add: run_Nil)
next
  case (Cons e es)
  then show ?case using step_Handler_keeps [of e g] by (simp add: run_Cons)
qed

lemma step_settled:
  "settled g \<Longrightarrow>
   settled (step e g) \<and> phase (step e g) = phase g \<and> origWriter (step e g) = origWriter g"
  by (cases e) (auto simp: settled_def split: cwriter.splits)

lemma run_settled:
  "settled g \<Longrightarrow> phase (run es g) = phase g \<and> origWriter (run es g) = origWriter g"
proof (induction es arbitrary: g)
  case Nil
  show ?case by (simp add: run_Nil)
next
  case (Cons e es)
  from step_settled [OF Cons.prems, of e] Cons.IH [of "step e g"]
  show ?case by (simp add: run_Cons)
qed

lemma bw_op_closed: "closed b \<Longrightarrow> closed (bw_op w b) \<and> buf (bw_op w b) = buf b"
  by (cases w) (simp_all add: bw_Write_def bw_WriteString_def bw_WriteHeader_def bw_WriteHeaderNow_def Let_def)

lemma step_closed: "closed (bw g) \<Longrightarrow> closed (bw (step e g)) \<and> buf (bw (step e g)) = buf (bw g)"
  by (cases e) (auto simp: bw_op_closed split: cwriter.splits)

lemma run_closed: "closed (bw g) \<Longrightarrow> closed (bw (run es g)) \<and> buf (bw (run es g)) = buf (bw g)"
proof (induction es arbitrary: g)
  case Nil
  then show ?case by (simp add: run_Nil)
next
  case (Cons e es)
  from Cons.prems have "closed (bw (step e g))" "buf (bw (step e g)) = buf (bw g)"
    using step_closed [of g e] by simp_all
  with Cons.IH [of "step e g"] show ?case by (simp add: run_Cons)
qed

lemma timeout_response_fresh:
  "fresh t \<Longrightarrow>
   client_view (t_ops timeout_response t) =
     (Some (504, header_Set ''Content-Type'' ''application/json; charset=utf-8'' (t_header t)),
      timeout_body)"
  by (simp add: fresh_def client_view_def t_ops_def timeout_response_def t_op_def
        gin_WriteHeader_def gin_Write_def gin_WriteHeaderNow_def http_WriteHeader_def
        http_Write_def bodyAllowedForStatus_def timeout_body_def Let_def)




lemma t_ops_append: "t_ops (xs @ ys) t = t_ops ys (t_ops xs t)"
  by (simp add: t_ops_def)

lemma t_ops_header_adds:
  "\<not> t_panic t \<Longrightarrow>
   t_ops (map (HeaderAdd k) vv) t = t\<lparr> t_header := add_all k vv (t_header t) \<rparr>"
  unfolding t_ops_def add_all_def
  by (induction vv arbitrary: t) (simp_all add: t_op_def)

lemma t_ops_flush_headers:
  "\<not> t_panic t \<Longrightarrow>
   t_ops (concat (map (\<lambda>(k, vv). map (HeaderAdd k) vv) hs)) t =
     t\<lparr> t_header := flush_header hs (t_header t) \<rparr>"
proof (induction hs arbitrary: t)
  case Nil
  show ?case by (simp add: t_ops_def flush_header_def)
next
  case (Cons p hs)
  obtain k0 vv where p: "p = (k0, vv)" by (cases p)
  have np: "\<not> t_panic (t\<lparr> t_header := add_all k0 vv (t_header t) \<rparr>)"
    using Cons.prems by simp
  show ?case
    using Cons.IH [OF np] Cons.prems
    by (simp add: p t_ops_append t_ops_header_adds flush_header_def)
qed

lemma flushTo_fresh:
  assumes "fresh t" and "final_status_with_body (Status b)"
  shows "client_view (t_ops (flushTo b) t) =
           (Some (Status b, flush_header (head b) (t_header t)), buf b)"
proof -
  from assms(1) have np: "\<not> t_panic t" by (simp add: fresh_def)
  show ?thesis
    using assms
    by (simp add: flushTo_def t_ops_append t_ops_flush_headers [OF np])
       (auto simp: t_ops_def fresh_def client_view_def final_status_with_body_def t_op_def
          gin_WriteHeader_def gin_Write_def gin_WriteHeaderNow_def http_WriteHeader_def
          http_Write_def bodyAllowedForStatus_def Let_def)
qed

lemma header_op_distinct: "distinct (map fst h) \<Longrightarrow> distinct (map fst (header_op w h))"
  by (cases w)
     (simp_all add: header_Set_def header_Add_def header_Del_def header_Default_def
        distinct_update distinct_delete)




lemma closed_no_op:
  "closed b \<Longrightarrow>
   bw_Write d b = ((0, None), b) \<and> bw_WriteString s b = ((0, None), b) \<and> bw_WriteHeader c b = b"
  by (simp add: bw_Write_def bw_WriteString_def bw_WriteHeader_def)

text \<open>
  The timed-out request itself: when the deadline is what the middleware sees first, the
  client of this request receives the fixed 504 response and nothing else, whatever the
  handler wrote before and whatever happens afterwards; the buffer stays closed, and
  \<open>Write\<close>, \<open>WriteString\<close> and \<open>WriteHeader\<close> on it return \<open>(0, nil)\<close> and change
  nothing.
\<close>

lemma timed_out_own_client:
  assumes "fresh t" and "\<forall>e\<in>set pre. is_Handler e"
  shows "phase (run (pre @ Done # post) (guard_start t)) = TIMED_OUT \<and>
         client_view (origWriter (run (pre @ Done # post) (guard_start t))) =
           (Some (504, header_Set ''Content-Type'' ''application/json; charset=utf-8'' (t_header t)),
            timeout_body) \<and>
         closed (bw (run (pre @ Done # post) (guard_start t))) \<and>
         (\<forall>d s c. bw_Write d (bw (run (pre @ Done # post) (guard_start t))) =
                    ((0, None), bw (run (pre @ Done # post) (guard_start t))) \<and>
                  bw_WriteString s (bw (run (pre @ Done # post) (guard_start t))) =
                    ((0, None), bw (run (pre @ Done # post) (guard_start t))) \<and>
                  bw_WriteHeader c (bw (run (pre @ Done # post) (guard_start t))) =
                    bw (run (pre @ Done # post) (guard_start t))) \<and>
         buf (bw (run (pre @ Done # post) (guard_start t))) = buf (bw (run pre (guard_start t)))"
proof -
  let ?g = "run pre (guard_start t)"
  let ?g' = "step Done ?g"
  let ?fin = "run (pre @ Done # post) (guard_start t)"
  from assms(2) have keep: "phase ?g = RUNNING" "origWriter ?g = t" "c_Writer ?g = Shim"
    using run_Handler_keeps [of pre "guard_start t"] by (simp_all add: guard_start_def)
  have ph: "phase ?g' = TIMED_OUT" and ow: "origWriter ?g' = t_ops timeout_response t"
    and cl: "closed (bw ?g')" and bf: "buf (bw ?g') = buf (bw ?g)" and cw: "c_Writer ?g' = Shim"
    using keep by simp_all
  have fin: "?fin = run post ?g'"
    by (simp add: run_append run_Cons)
  from ph cw have st: "settled ?g'" by (simp add: settled_def)
  have stable: "phase ?fin = TIMED_OUT" "origWriter ?fin = origWriter ?g'"
    using run_settled [OF st, of post] ph by (simp_all add: fin)
  from cl have after: "closed (bw ?fin)" "buf (bw ?fin) = buf (bw ?g')"
    using run_closed [of ?g' post] by (simp_all add: fin)
  have view: "client_view (origWriter ?fin) =
      (Some (504, header_Set ''Content-Type'' ''application/json; charset=utf-8'' (t_header t)),
       timeout_body)"
    unfolding stable(2) ow by (rule timeout_response_fresh [OF assms(1)])
  show ?thesis
    using stable(1) view after bf closed_no_op [OF after(1)] by simp
qed

text \<open>
  Claim C2. The handler goroutine of a timed-out request goes on writing through
  \<open>c.Writer\<close> of its \<open>*gin.Context\<close>. When gin has recycled that context for a later
  request, \<open>c.Writer\<close> is no longer the closed buffer: here the handler writes
  \<open>early\<close> before the deadline and \<open>late\<close> after the context was recycled. The client of
  the timed-out request receives the 504 response alone, but the late bytes are taken
  by the writer of the later request and sent to its client with status 200. So a
  handler write after the deadline is not always dropped.
\<close>

theorem C2_late_write_reaches_later_request:
  "client_view (origWriter (run [Handler (Write ''early''), Done, Recycle new_transport,
                                 Handler (Write ''late'')] (guard_start new_transport))) =
     (Some (504, [(''Content-Type'', [''application/json; charset=utf-8''])]), timeout_body) \<and>
   (case c_Writer (run [Handler (Write ''early''), Done, Recycle new_transport,
                        Handler (Write ''late'')] (guard_start new_transport)) of
      Later t \<Rightarrow> client_view t = (Some (200, []), ''late'')
    | _ \<Rightarrow> False)"
  by (simp add: run_def guard_start_def new_transport_def newBufferedWriter_def client_view_def
        bw_Write_def t_ops_def timeout_response_def t_op_def header_Set_def
        gin_WriteHeader_def gin_Write_def gin_WriteHeaderNow_def http_WriteHeader_def
        http_Write_def bodyAllowedForStatus_def timeout_body_def Let_def)



section \<open>Properties of payment verification, receipts and the cache\<close>

lemma statuses_append: "statuses (xs @ ys) = statuses xs @ statuses ys"
  by (induction xs rule: statuses.induct) simp_all

lemma written_append: "written (xs @ ys) = written xs @ written ys"
  by (induction xs rule: written.induct) simp_all

lemma statuses_c_JSON: "statuses (c_JSON enc code obj) = [code]"
  by (simp add: c_JSON_def split: sum.splits)

lemma statuses_c_Header: "statuses (c_Header k v) = []"
  by (simp add: c_Header_def)

lemma written_c_Header: "written (c_Header k v) = []"
  by (simp add: c_Header_def)

lemma written_c_JSON:
  "written (c_JSON enc code obj) = (case enc obj of Inr data \<Rightarrow> data | Inl _ \<Rightarrow> [])"
  by (simp add: c_JSON_def split: sum.splits)

text \<open>\<open>generateAndSendReceipt\<close> ends with an error and a single 500, or with success.\<close>

lemma generateAndSendReceipt_cases:
  assumes "generateAndSendReceipt e cd co path pc addr req ai g = (ops, err, g')"
  shows "(err \<noteq> None \<and> statuses ops = [500]) \<or>
         (err = None \<and>
          (\<exists>body sr rj.
             Marshal cd (JObject [(''result'', JString ai)]) = Inr body \<and>
             GenerateReceipt co pc addr path req body = Inr sr \<and>
             storeReceipt co sr (getReceiptTTL e) g = Inr g' \<and>
             MarshalReceipt cd sr = Inr rj \<and>
             ops = c_Header ''X-402-Receipt'' (Base64 cd rj) @
                   c_JSON (Marshal cd) 200 (JObject [(''result'', JString ai)])))"
  using assms
  by (auto simp: generateAndSendReceipt_def Let_def statuses_c_JSON split: sum.splits)


lemma statuses_verification_error_response:
  "statuses (verification_error_response cd err) = [if is_DeadlineExceeded err then 504 else 500]"
  by (simp add: verification_error_response_def statuses_c_JSON)

lemma statuses_invalid_signature_response:
  "statuses (invalid_signature_response cd vr) = [403]"
  by (simp add: invalid_signature_response_def statuses_c_JSON)

lemma handleSummarize_cases:
  assumes "handleSummarize e cd co r cb g = (ops, g')"
  shows "(\<exists>c. statuses ops = [c] \<and> c \<noteq> 200 \<and> g' = g) \<or>
         (\<exists>vr pc body text summary err.
            r_signature r \<noteq> [] \<and> r_nonce r \<noteq> [] \<and>
            verifyPayment e co (r_signature r) (r_nonce r) = Inr (vr, pc) \<and> IsValid vr \<and>
            (cb = Some body \<or> cb = None \<and> ReadAll_MaxBytes (r_body r) = Inr body) \<and>
            UnmarshalSummarize cd body = Inr text \<and> text \<noteq> [] \<and>
            callOpenRouter co text = Inr summary \<and>
            generateAndSendReceipt e cd co (r_path r) pc (RecoveredAddress vr) body summary g =
              (ops, err, g'))"
  using assms
  unfolding handleSummarize_def
  by (auto simp: statuses_c_JSON statuses_verification_error_response
        statuses_invalid_signature_response
      split: if_splits sum.splits option.splits read_error.splits prod.splits)


lemma verifyPayment_answer:
  "verifyPayment e co s n =
     (case verifier_answer e co s n of
        MarshalFailed err \<Rightarrow> Inl (Errorf ''marshal verification request'' err)
      | NewRequestFailed err \<Rightarrow> Inl (Errorf ''create verifier request'' err)
      | DoFailed err \<Rightarrow> Inl (Errorf ''verifier request failed'' err)
      | Responded code decoded \<Rightarrow>
          if code \<noteq> 200 then Inl (Opaque (''verifier returned status '' @ Itoa code))
          else (case decoded of
                  Inl err \<Rightarrow> Inl (Errorf ''decode verification response'' err)
                | Inr verifyResp \<Rightarrow> Inr (verifyResp, payment_context e n)))"
  unfolding verifyPayment_def verifier_answer_def payment_context_def Let_def
  by (rule refl)

lemma handleSummarize_verification:
  assumes "r_signature r \<noteq> []" and "r_nonce r \<noteq> []"
    and "cb = Some body \<or> cb = None \<and> ReadAll_MaxBytes (r_body r) = Inr body"
  shows "handleSummarize e cd co r cb g =
     (case verifyPayment e co (r_signature r) (r_nonce r) of
        Inl err \<Rightarrow> (verification_error_response cd err, g)
      | Inr (vr, pc) \<Rightarrow>
          if \<not> IsValid vr then (invalid_signature_response cd vr, g)
          else handleSummarize e cd co r cb g)"
  using assms
  by (auto simp: handleSummarize_def split: sum.splits prod.splits)

text \<open>
  Claim C4. For a request with both payment headers whose body could be read: when the
  exchange with the verifier fails, when the verifier answers with a status other than
  200, or when its answer cannot be decoded, and the failure is not a deadline error,
  \<open>verifyPayment\<close> returns a generic error and \<open>handleSummarize\<close> answers 500;
  when the failure is a deadline error, the error returned is a deadline error and the
  handler answers 504; and an answer that decodes is returned as a result, not as an
  error, which the handler turns into 403 with the verifier's detail string when the
  answer says the signature is not valid.
\<close>

theorem C4_verification_failure_modes:
  assumes "r_signature r \<noteq> []" and "r_nonce r \<noteq> []"
    and "cb = Some body \<or> cb = None \<and> ReadAll_MaxBytes (r_body r) = Inr body"
  shows
    "(\<forall>err. verifier_answer e co (r_signature r) (r_nonce r) = DoFailed err \<and>
            \<not> is_DeadlineExceeded err \<longrightarrow> generic_failure e cd co r cb g) \<and>
     (\<forall>code decoded. verifier_answer e co (r_signature r) (r_nonce r) = Responded code decoded \<and>
            code \<noteq> 200 \<longrightarrow> generic_failure e cd co r cb g) \<and>
     (\<forall>err. verifier_answer e co (r_signature r) (r_nonce r) = Responded 200 (Inl err) \<and>
            \<not> is_DeadlineExceeded err \<longrightarrow> generic_failure e cd co r cb g) \<and>
     (\<forall>err. (verifier_answer e co (r_signature r) (r_nonce r) = DoFailed err \<or>
             verifier_answer e co (r_signature r) (r_nonce r) = Responded 200 (Inl err)) \<and>
            is_DeadlineExceeded err \<longrightarrow> timeout_failure e cd co r cb g) \<and>
     (\<forall>vr. verifier_answer e co (r_signature r) (r_nonce r) = Responded 200 (Inr vr) \<longrightarrow>
            verifyPayment e co (r_signature r) (r_nonce r) = Inr (vr, payment_context e (r_nonce r)) \<and>
            (\<not> IsValid vr \<longrightarrow>
               handleSummarize e cd co r cb g =
                 (c_JSON (Marshal cd) 403
                    (JObject [(''error'', JString ''Invalid Signature''),
                              (''details'', JString (Error vr))]), g)))"
proof -
  note hs = handleSummarize_verification [OF assms, of e cd co g]
  show ?thesis
  proof (intro conjI allI impI)
    fix err
    assume "verifier_answer e co (r_signature r) (r_nonce r) = DoFailed err \<and> \<not> is_DeadlineExceeded err"
    then show "generic_failure e cd co r cb g"
      using hs by (simp add: generic_failure_def verifyPayment_answer verification_error_response_def)
  next
    fix code decoded
    assume "verifier_answer e co (r_signature r) (r_nonce r) = Responded code decoded \<and> code \<noteq> 200"
    then show "generic_failure e cd co r cb g"
      using hs by (simp add: generic_failure_def verifyPayment_answer verification_error_response_def)
  next
    fix err
    assume "verifier_answer e co (r_signature r) (r_nonce r) = Responded 200 (Inl err) \<and>
            \<not> is_DeadlineExceeded err"
    then show "generic_failure e cd co r cb g"
      using hs by (simp add: generic_failure_def verifyPayment_answer verification_error_response_def)
  next
    fix err
    assume "(verifier_answer e co (r_signature r) (r_nonce r) = DoFailed err \<or>
             verifier_answer e co (r_signature r) (r_nonce r) = Responded 200 (Inl err)) \<and>
            is_DeadlineExceeded err"
    then show "timeout_failure e cd co r cb g"
      using hs by (auto simp: timeout_failure_def verifyPayment_answer verification_error_response_def)
  next
    fix vr
    assume a: "verifier_answer e co (r_signature r) (r_nonce r) = Responded 200 (Inr vr)"
    then show "verifyPayment e co (r_signature r) (r_nonce r) = Inr (vr, payment_context e (r_nonce r))"
      by (simp add: verifyPayment_answer)
  next
    fix vr
    assume a: "verifier_answer e co (r_signature r) (r_nonce r) = Responded 200 (Inr vr)"
      and b: "\<not> IsValid vr"
    then show "handleSummarize e cd co r cb g =
                 (c_JSON (Marshal cd) 403
                    (JObject [(''error'', JString ''Invalid Signature''),
                              (''details'', JString (Error vr))]), g)"
      using hs by (simp add: verifyPayment_answer invalid_signature_response_def)
  qed
qed


theorem C4_verification_failure_modes_witness:
  "r_signature example_request \<noteq> [] \<and> r_nonce example_request \<noteq> [] \<and>
   ReadAll_MaxBytes (r_body example_request) = Inr ''long'' \<and>
   generic_failure example_env example_codec (example_collab (DoFailed (Opaque ''connection refused'')))
     example_request None example_gateway \<and>
   generic_failure example_env example_codec (example_collab (Responded 503 (Inl (Opaque ''unread''))))
     example_request None example_gateway \<and>
   generic_failure example_env example_codec (example_collab (Responded 200 (Inl (Opaque ''invalid character''))))
     example_request None example_gateway \<and>
   timeout_failure example_env example_codec (example_collab (DoFailed DeadlineExceeded))
     example_request None example_gateway \<and>
   verifyPayment example_env (example_collab (Responded 200 (Inr invalid_answer)))
       (r_signature example_request) (r_nonce example_request) =
     Inr (invalid_answer, payment_context example_env (r_nonce example_request)) \<and>
   handleSummarize example_env example_codec (example_collab (Responded 200 (Inr invalid_answer)))
       example_request None example_gateway =
     (c_JSON (Marshal example_codec) 403
        (JObject [(''error'', JString ''Invalid Signature''),
                  (''details'', JString (Error invalid_answer))]), example_gateway)"
proof -
  have h1: "r_signature example_request \<noteq> []" and h2: "r_nonce example_request \<noteq> []"
    by (simp_all add: example_request_def)
  have rd: "ReadAll_MaxBytes (r_body example_request) = Inr ''long''"
    by (simp add: example_request_def ReadAll_MaxBytes_def maxBodySize_def)
  then have h3: "None = Some ''long'' \<or> None = None \<and> ReadAll_MaxBytes (r_body example_request) = Inr ''long''"
    by simp
  have va: "\<And>out. verifier_answer example_env (example_collab out)
                 (r_signature example_request) (r_nonce example_request) = out"
    by (simp add: verifier_answer_def example_collab_def)
  note T = C4_verification_failure_modes [OF h1 h2 h3, of example_env _ example_codec example_gateway]
  have g1: "generic_failure example_env example_codec
              (example_collab (DoFailed (Opaque ''connection refused''))) example_request None example_gateway"
    using T [of "example_collab (DoFailed (Opaque ''connection refused''))"] va by simp
  have g2: "generic_failure example_env example_codec
              (example_collab (Responded 503 (Inl (Opaque ''unread'')))) example_request None example_gateway"
    using T [of "example_collab (Responded 503 (Inl (Opaque ''unread'')))"] va by simp
  have g3: "generic_failure example_env example_codec
              (example_collab (Responded 200 (Inl (Opaque ''invalid character''))))
              example_request None example_gateway"
    using T [of "example_collab (Responded 200 (Inl (Opaque ''invalid character'')))"] va by simp
  have g4: "timeout_failure example_env example_codec (example_collab (DoFailed DeadlineExceeded))
              example_request None example_gateway"
    using T [of "example_collab (DoFailed DeadlineExceeded)"] va by simp
  have g5: "verifyPayment example_env (example_collab (Responded 200 (Inr invalid_answer)))
              (r_signature example_request) (r_nonce example_request) =
            Inr (invalid_answer, payment_context example_env (r_nonce example_request)) \<and>
            handleSummarize example_env example_codec (example_collab (Responded 200 (Inr invalid_answer)))
              example_request None example_gateway =
            (c_JSON (Marshal example_codec) 403
               (JObject [(''error'', JString ''Invalid Signature''),
                         (''details'', JString (Error invalid_answer))]), example_gateway)"
    using T [of "example_collab (Responded 200 (Inr invalid_answer))"] va
    by (simp add: invalid_answer_def)
  show ?thesis
    using h1 h2 rd g1 g2 g3 g4 g5 by simp
qed

lemma CacheMiddleware_hit:
  assumes "cache_hit e cd co r g = Some (body, cached)"
  shows "CacheMiddleware e cd co r b next g =
     (case verifyPayment e co (r_signature r) (r_nonce r) of
        Inl err \<Rightarrow> (verification_error_response cd err, None, g)
      | Inr (vr, pc) \<Rightarrow>
          if \<not> IsValid vr then (invalid_signature_response cd vr, None, g)
          else (case generateAndSendReceipt e cd co (r_path r) pc (RecoveredAddress vr)
                       body (Result cached) g of
                  (ops, _, g') \<Rightarrow> (ops, None, g')))"
  using assms
  unfolding cache_hit_def cache_lookup_def CacheMiddleware_def Let_def
  by (auto split: if_splits sum.splits option.splits prod.splits read_error.splits)

lemma CacheMiddleware_miss:
  assumes "cache_miss e cd co r g = Some (body, key)"
  shows "CacheMiddleware e cd co r b next g =
     (case next (Some body) g of
        (ops, g') \<Rightarrow>
          (if Status (foldl (\<lambda>b' w. bw_op w b') b ops) = 200 then
             (case UnmarshalMap cd (written ops) of
                Inr resp \<Rightarrow>
                  (case map_of resp ''result'' of
                     Some (JString result) \<Rightarrow> (ops, Some (key, result), g')
                   | _ \<Rightarrow> (ops, None, g'))
              | Inl _ \<Rightarrow> (ops, None, g'))
           else (ops, None, g')))"
  using assms
  unfolding cache_miss_def cache_lookup_def CacheMiddleware_def Let_def
  by (auto split: if_splits sum.splits option.splits prod.splits read_error.splits)


text \<open>
  Claim C1. For a request that hits the cache: a response with status 200 is given only
  when \<open>verifyPayment\<close> has returned a result that says the signature is valid, and
  it is then the response \<open>generateAndSendReceipt\<close> builds from the cached result; when
  the result says the signature is not valid, the response is 403 with the verifier's
  detail string, the rest of the chain is not run and the gateway is unchanged; when
  verification fails, the response is the 504 or 500 of the failure. In the last two
  cases the response does not depend on the cached entry.
\<close>

theorem C1_cache_hit_is_verified:
  assumes "cache_hit e cd co r g = Some (body, cached)"
  shows
    "(\<forall>ops sp g'. CacheMiddleware e cd co r b next g = (ops, sp, g') \<and> 200 \<in> set (statuses ops) \<longrightarrow>
        (\<exists>vr pc. verifyPayment e co (r_signature r) (r_nonce r) = Inr (vr, pc) \<and> IsValid vr \<and>
           ops = fst (generateAndSendReceipt e cd co (r_path r) pc (RecoveredAddress vr)
                        body (Result cached) g))) \<and>
     (\<forall>vr pc. verifyPayment e co (r_signature r) (r_nonce r) = Inr (vr, pc) \<and> \<not> IsValid vr \<longrightarrow>
        CacheMiddleware e cd co r b next g =
          (c_JSON (Marshal cd) 403
             (JObject [(''error'', JString ''Invalid Signature''),
                       (''details'', JString (Error vr))]), None, g)) \<and>
     (\<forall>err. verifyPayment e co (r_signature r) (r_nonce r) = Inl err \<longrightarrow>
        CacheMiddleware e cd co r b next g = (verification_error_response cd err, None, g))"
proof (intro conjI allI impI)
  fix ops sp g'
  assume a: "CacheMiddleware e cd co r b next g = (ops, sp, g') \<and> 200 \<in> set (statuses ops)"
  show "\<exists>vr pc. verifyPayment e co (r_signature r) (r_nonce r) = Inr (vr, pc) \<and> IsValid vr \<and>
           ops = fst (generateAndSendReceipt e cd co (r_path r) pc (RecoveredAddress vr)
                        body (Result cached) g)"
  proof (cases "verifyPayment e co (r_signature r) (r_nonce r)")
    case (Inl err)
    with a show ?thesis
      using statuses_verification_error_response [of cd err]
      by (auto simp: CacheMiddleware_hit [OF assms] split: if_splits)
  next
    case (Inr p)
    obtain vr pc where p: "p = (vr, pc)" by (cases p)
    show ?thesis
    proof (cases "IsValid vr")
      case False
      with a Inr p show ?thesis
        using statuses_invalid_signature_response [of cd vr]
        by (auto simp: CacheMiddleware_hit [OF assms])
    next
      case True
      with a Inr p show ?thesis
        by (auto simp: CacheMiddleware_hit [OF assms] split: prod.splits)
    qed
  qed
next
  fix vr pc
  assume "verifyPayment e co (r_signature r) (r_nonce r) = Inr (vr, pc) \<and> \<not> IsValid vr"
  then show "CacheMiddleware e cd co r b next g =
          (c_JSON (Marshal cd) 403
             (JObject [(''error'', JString ''Invalid Signature''),
                       (''details'', JString (Error vr))]), None, g)"
    by (simp add: CacheMiddleware_hit [OF assms] invalid_signature_response_def)
next
  fix err
  assume "verifyPayment e co (r_signature r) (r_nonce r) = Inl err"
  then show "CacheMiddleware e cd co r b next g = (verification_error_response cd err, None, g)"
    by (simp add: CacheMiddleware_hit [OF assms])
qed

lemma example_cache_hit:
  "cache_hit example_env example_codec (example_collab out) example_request example_gateway_cached =
     Some (''long'', \<lparr> Result = ''old'', CachedAt = 0 \<rparr>)"
  by (simp add: cache_hit_def cache_lookup_def example_env_def example_codec_def example_collab_def
        example_request_def example_gateway_cached_def ReadAll_MaxBytes_def maxBodySize_def
        getCacheKey_def getFromCache_def redis_Get_def Let_def)

lemma example_verifyPayment:
  "verifyPayment example_env (example_collab (Responded 200 (Inr vr)))
     (r_signature example_request) (r_nonce example_request) =
   Inr (vr, payment_context example_env (r_nonce example_request))"
  by (simp add: verifyPayment_answer verifier_answer_def example_collab_def)

theorem C1_cache_hit_is_verified_witness:
  "cache_hit example_env example_codec (example_collab (Responded 200 (Inr invalid_answer)))
       example_request example_gateway_cached =
     Some (''long'', \<lparr> Result = ''old'', CachedAt = 0 \<rparr>) \<and>
   \<not> IsValid invalid_answer \<and>
   CacheMiddleware example_env example_codec (example_collab (Responded 200 (Inr invalid_answer)))
       example_request newBufferedWriter
       (handleSummarize example_env example_codec (example_collab (Responded 200 (Inr invalid_answer)))
          example_request)
       example_gateway_cached =
     (c_JSON (Marshal example_codec) 403
        (JObject [(''error'', JString ''Invalid Signature''),
                  (''details'', JString (Error invalid_answer))]), None, example_gateway_cached)"
  using C1_cache_hit_is_verified [OF example_cache_hit,
          of "Responded 200 (Inr invalid_answer)" newBufferedWriter
             "handleSummarize example_env example_codec
                (example_collab (Responded 200 (Inr invalid_answer))) example_request"]
    example_cache_hit [of "Responded 200 (Inr invalid_answer)"]
    example_verifyPayment [of invalid_answer]
  by (simp add: invalid_answer_def)

lemma CacheMiddleware_cases:
  assumes "CacheMiddleware e cd co r b next g = (ops, sp, g')"
  shows "(\<exists>c. statuses ops = [c] \<and> c \<noteq> 200 \<and> g' = g) \<or>
         (\<exists>cb. next cb g = (ops, g')) \<or>
         (\<exists>vr pc body cached err.
            verifyPayment e co (r_signature r) (r_nonce r) = Inr (vr, pc) \<and> IsValid vr \<and>
            cache_hit e cd co r g = Some (body, cached) \<and>
            generateAndSendReceipt e cd co (r_path r) pc (RecoveredAddress vr) body (Result cached) g =
              (ops, err, g'))"
proof (cases "cache_hit e cd co r g")
  case (Some p)
  obtain body cached where p: "p = (body, cached)" by (cases p)
  note hit = CacheMiddleware_hit [OF Some [unfolded p], of b "next"]
  show ?thesis
  proof (cases "verifyPayment e co (r_signature r) (r_nonce r)")
    case (Inl err)
    with assms hit show ?thesis
      using statuses_verification_error_response [of cd err] by auto
  next
    case (Inr q)
    obtain vr pc where q: "q = (vr, pc)" by (cases q)
    show ?thesis
    proof (cases "IsValid vr")
      case False
      with assms hit Inr q show ?thesis
        using statuses_invalid_signature_response [of cd vr] by auto
    next
      case True
      with assms hit Inr q Some p show ?thesis
        by (auto split: prod.splits)
    qed
  qed
next
  case None
  show ?thesis
  proof (cases "cache_miss e cd co r g")
    case (Some p)
    obtain body key where p: "p = (body, key)" by (cases p)
    note miss = CacheMiddleware_miss [OF Some [unfolded p], of b "next"]
    obtain ops0 g0 where n: "next (Some body) g = (ops0, g0)" by (cases "next (Some body) g")
    from assms miss n have "ops = ops0 \<and> g' = g0"
      by (auto split: if_splits sum.splits option.splits json.splits)
    with n show ?thesis by blast
  next
    case nomiss: None
    from None nomiss have nl: "cache_lookup e cd co r g = None"
      by (auto simp: cache_hit_def cache_miss_def split: option.splits prod.splits sum.splits)
    show ?thesis
      using assms nl
      unfolding cache_lookup_def CacheMiddleware_def Let_def payload_too_large_def
      by (auto simp: statuses_append statuses_c_JSON statuses_c_Header
            split: if_splits sum.splits option.splits prod.splits read_error.splits)
  qed
qed


lemma storeInCache_receiptStore: "receiptStore (storeInCache cd co k v g) = receiptStore g"
  by (simp add: storeInCache_def Let_def split: sum.splits option.splits)

lemma summarize_route_cases:
  assumes "summarize_route e cd co r b g = (ops, g')"
  shows "(\<exists>c. statuses ops = [c] \<and> c \<noteq> 200) \<or>
         (\<exists>vr pc body ai err g1.
            verifyPayment e co (r_signature r) (r_nonce r) = Inr (vr, pc) \<and> IsValid vr \<and>
            generateAndSendReceipt e cd co (r_path r) pc (RecoveredAddress vr) body ai g = (ops, err, g1) \<and>
            receiptStore g' = receiptStore g1)"
proof (cases "getCacheEnabled e")
  case False
  with assms have "handleSummarize e cd co r None g = (ops, g')"
    by (simp add: summarize_route_def)
  from handleSummarize_cases [OF this] show ?thesis by blast
next
  case True
  obtain ops0 sp g0 where cm: "CacheMiddleware e cd co r b (handleSummarize e cd co r) g = (ops0, sp, g0)"
    by (cases "CacheMiddleware e cd co r b (handleSummarize e cd co r) g")
  with assms True have eq: "ops = ops0" "receiptStore g' = receiptStore g0"
    by (auto simp: summarize_route_def storeInCache_receiptStore split: option.splits prod.splits)
  from CacheMiddleware_cases [OF cm] show ?thesis
  proof (elim disjE exE conjE)
    fix c
    assume "statuses ops0 = [c]" "c \<noteq> 200"
    with eq show ?thesis by blast
  next
    fix cb
    assume nxt: "handleSummarize e cd co r cb g = (ops0, g0)"
    from handleSummarize_cases [OF nxt] eq show ?thesis by blast
  next
    fix vr pc body cached err
    assume "verifyPayment e co (r_signature r) (r_nonce r) = Inr (vr, pc)" "IsValid vr"
      "generateAndSendReceipt e cd co (r_path r) pc (RecoveredAddress vr) body (Result cached) g =
         (ops0, err, g0)"
    with eq show ?thesis by blast
  qed
qed

lemma buf_handler_ops:
  "\<not> closed b0 \<Longrightarrow>
   buf (foldl (\<lambda>b' w. bw_op w b') b0 ops) = buf b0 @ written ops \<and>
   \<not> closed (foldl (\<lambda>b' w. bw_op w b') b0 ops)"
proof (induction ops arbitrary: b0)
  case Nil
  then show ?case by simp
next
  case (Cons w ops)
  have st: "\<not> closed (bw_op w b0)" and bf: "buf (bw_op w b0) = buf b0 @ written [w]"
    using Cons.prems
    by (cases w; simp add: bw_Write_def bw_WriteString_def bw_WriteHeader_def bw_WriteHeaderNow_def Let_def)+
  have "written (w # ops) = written [w] @ written ops"
    by (cases w) simp_all
  with Cons.IH [OF st] bf show ?case by simp
qed

lemma bw_run_handlers:
  "c_Writer g = Shim \<Longrightarrow>
   bw (run (map Handler ops) g) = foldl (\<lambda>b' w. bw_op w b') (bw g) ops"
proof (induction ops arbitrary: g)
  case Nil
  show ?case by (simp add: run_Nil)
next
  case (Cons w ops)
  from Cons.prems have cw: "c_Writer (step (Handler w) g) = Shim"
    and b: "bw (step (Handler w) g) = bw_op w (bw g)"
    by simp_all
  show ?case
    using Cons.IH [OF cw] b by (simp add: run_Cons)
qed

lemma Status_after_JSON:
  "\<not> closed b0 \<Longrightarrow> code \<noteq> 0 \<Longrightarrow>
   Status (foldl (\<lambda>b' w. bw_op w b') b0 (c_Header k v @ c_JSON enc code obj)) = code"
  by (simp add: c_Header_def c_JSON_def Status_def bw_WriteHeader_def bw_Write_def
        split: sum.splits)

lemma completed_client_view:
  assumes "fresh t"
    and "final_status_with_body (Status (foldl (\<lambda>b' w. bw_op w b') newBufferedWriter ops))"
  shows "\<exists>hs. client_view (origWriter (run (map Handler ops @ [Finished]) (guard_start t))) =
           (Some (Status (foldl (\<lambda>b' w. bw_op w b') newBufferedWriter ops), hs), written ops)"
proof -
  let ?g = "run (map Handler ops) (guard_start t)"
  let ?b = "foldl (\<lambda>b' w. bw_op w b') newBufferedWriter ops"
  have all: "\<forall>e\<in>set (map Handler ops). is_Handler e" by simp
  have keep: "phase ?g = RUNNING" "origWriter ?g = t"
    using run_Handler_keeps [OF all, of "guard_start t"] by (simp_all add: guard_start_def)
  have bw: "bw ?g = ?b"
    using bw_run_handlers [of "guard_start t" ops] by (simp add: guard_start_def)
  have bf: "buf ?b = written ops"
    using buf_handler_ops [of newBufferedWriter ops] by (simp add: newBufferedWriter_def)
  have fin: "origWriter (run (map Handler ops @ [Finished]) (guard_start t)) = t_ops (flushTo ?b) t"
    using keep bw by (simp add: run_append run_Cons run_Nil)
  show ?thesis
    unfolding fin using flushTo_fresh [OF assms(1), of ?b] assms(2) bf by simp
qed

text \<open>
  Claim C5. Whenever the route answers 200, with or without the cache and on a hit as on
  a miss, the calls on the writer are the receipt header followed by status 200 and one
  body write; the body is the encoding of the map that holds the result alone, so the
  receipt is not part of it; the response hash of the receipt that is encoded into the
  \<open>X-402-Receipt\<close> header and kept in the receipt store is the hash of exactly these
  body bytes; and these are the bytes the client receives when the handler completes
  under the timeout middleware.
\<close>

theorem C5_receipt_hash_matches_body:
  assumes "summarize_route e cd co r b g = (ops, g')" and "200 \<in> set (statuses ops)"
  shows "\<exists>sr rj ai.
           Marshal cd (JObject [(''result'', JString ai)]) = Inr (written ops) \<and>
           MarshalReceipt cd sr = Inr rj \<and>
           ops = c_Header ''X-402-Receipt'' (Base64 cd rj) @
                 [WriteHeader 200,
                  HeaderDefault ''Content-Type'' ''application/json; charset=utf-8'',
                  Write (written ops)] \<and>
           ResponseHash (Service (Receipt sr)) = content_hash co (written ops) \<and>
           receiptStore g' (ID (Receipt sr)) =
             Some \<lparr> receipt = sr, expiresAt = clock co + getReceiptTTL e \<rparr> \<and>
           (\<forall>t. fresh t \<longrightarrow>
              (\<exists>hs. client_view (origWriter (run (map Handler ops @ [Finished]) (guard_start t))) =
                      (Some (200, hs), written ops)))"
proof -
  obtain vr :: VerifyResponse and pc body ai err g1 where
    gen: "generateAndSendReceipt e cd co (r_path r) pc (RecoveredAddress vr) body ai g = (ops, err, g1)"
    and rs: "receiptStore g' = receiptStore g1"
  proof -
    from summarize_route_cases [OF assms(1)] show thesis
    proof (elim disjE exE conjE)
      fix c
      assume "statuses ops = [c]" "c \<noteq> 200"
      with assms(2) show thesis by simp
    next
      fix vr :: VerifyResponse and pc body ai err g1
      assume "generateAndSendReceipt e cd co (r_path r) pc (RecoveredAddress vr) body ai g = (ops, err, g1)"
        and "receiptStore g' = receiptStore g1"
      then show thesis by (rule that)
    qed
  qed
  obtain rbody sr rj where
    m: "Marshal cd (JObject [(''result'', JString ai)]) = Inr rbody"
    and gr: "GenerateReceipt co pc (RecoveredAddress vr) (r_path r) body rbody = Inr sr"
    and st: "storeReceipt co sr (getReceiptTTL e) g = Inr g1"
    and mr: "MarshalReceipt cd sr = Inr rj"
    and ops: "ops = c_Header ''X-402-Receipt'' (Base64 cd rj) @
                    c_JSON (Marshal cd) 200 (JObject [(''result'', JString ai)])"
  proof -
    from generateAndSendReceipt_cases [OF gen] show thesis
    proof (elim disjE exE conjE)
      assume "statuses ops = [500]"
      with assms(2) show thesis by simp
    next
      fix rbody sr rj
      assume "Marshal cd (JObject [(''result'', JString ai)]) = Inr rbody"
        and "GenerateReceipt co pc (RecoveredAddress vr) (r_path r) body rbody = Inr sr"
        and "storeReceipt co sr (getReceiptTTL e) g = Inr g1"
        and "MarshalReceipt cd sr = Inr rj"
        and "ops = c_Header ''X-402-Receipt'' (Base64 cd rj) @
                    c_JSON (Marshal cd) 200 (JObject [(''result'', JString ai)])"
      then show thesis by (rule that)
    qed
  qed
  have w: "written ops = rbody"
    by (simp add: ops written_append written_c_Header written_c_JSON m)
  have ops': "ops = c_Header ''X-402-Receipt'' (Base64 cd rj) @
                 [WriteHeader 200,
                  HeaderDefault ''Content-Type'' ''application/json; charset=utf-8'',
                  Write (written ops)]"
    by (simp add: w) (simp add: ops c_JSON_def m)
  from gr have hash: "ResponseHash (Service (Receipt sr)) = content_hash co rbody"
    by (auto simp: GenerateReceipt_def Let_def split: sum.splits prod.splits)
  from st have store: "receiptStore g1 (ID (Receipt sr)) =
      Some \<lparr> receipt = sr, expiresAt = clock co + getReceiptTTL e \<rparr>"
    by (auto simp: storeReceipt_def split: option.splits)
  have status: "Status (foldl (\<lambda>b' w. bw_op w b') newBufferedWriter ops) = 200"
    unfolding ops by (rule Status_after_JSON) (simp_all add: newBufferedWriter_def)
  have client: "\<forall>t. fresh t \<longrightarrow>
              (\<exists>hs. client_view (origWriter (run (map Handler ops @ [Finished]) (guard_start t))) =
                      (Some (200, hs), written ops))"
  proof (intro allI impI)
    fix t :: transport
    assume "fresh t"
    from completed_client_view [OF this, of ops] status
    show "\<exists>hs. client_view (origWriter (run (map Handler ops @ [Finished]) (guard_start t))) =
                      (Some (200, hs), written ops)"
      by (simp add: final_status_with_body_def)
  qed
  show ?thesis
    using m mr ops' hash store client w rs by auto
qed


lemmas example_defs =
  example_env_def example_env_cached_def example_codec_def example_collab_def example_request_def
  example_gateway_def example_gateway_cached_def valid_answer_def invalid_answer_def

lemma example_served_without_cache:
  "fst (summarize_route example_env example_codec (example_collab (Responded 200 (Inr valid_answer)))
          example_request newBufferedWriter example_gateway) =
   [HeaderSet ''X-402-Receipt'' ''rcpt_1'', WriteHeader 200,
    HeaderDefault ''Content-Type'' ''application/json; charset=utf-8'', Write ''Rshort'']"
  by (simp add: summarize_route_def getCacheEnabled_def ToLower_def handleSummarize_def
        ReadAll_MaxBytes_def maxBodySize_def verifyPayment_def generateAndSendReceipt_def
        GenerateReceipt_def storeReceipt_def validateReceipt_def HasPrefix_def c_JSON_def
        c_Header_def Let_def getPaymentAmount_def getRecipientAddress_def getChainID_def
        getReceiptTTL_def getEnvAsInt_def example_defs)

lemma example_served_from_cache:
  "fst (summarize_route example_env_cached example_codec (example_collab (Responded 200 (Inr valid_answer)))
          example_request newBufferedWriter example_gateway_cached) =
   [HeaderSet ''X-402-Receipt'' ''rcpt_1'', WriteHeader 200,
    HeaderDefault ''Content-Type'' ''application/json; charset=utf-8'', Write ''Rold'']"
  by (simp add: summarize_route_def getCacheEnabled_def ToLower_def CacheMiddleware_def
        getCacheKey_def getFromCache_def redis_Get_def
        ReadAll_MaxBytes_def maxBodySize_def verifyPayment_def generateAndSendReceipt_def
        GenerateReceipt_def storeReceipt_def validateReceipt_def HasPrefix_def c_JSON_def
        c_Header_def Let_def getPaymentAmount_def getRecipientAddress_def getChainID_def
        getReceiptTTL_def getEnvAsInt_def example_defs)


theorem C5_receipt_hash_matches_body_witness:
  "200 \<in> set (statuses (fst (summarize_route example_env example_codec
                                (example_collab (Responded 200 (Inr valid_answer)))
                                example_request newBufferedWriter example_gateway))) \<and>
   (\<exists>sr. ResponseHash (Service (Receipt sr)) =
           content_hash (example_collab (Responded 200 (Inr valid_answer))) ''Rshort'' \<and>
         receiptStore (snd (summarize_route example_env example_codec
                              (example_collab (Responded 200 (Inr valid_answer)))
                              example_request newBufferedWriter example_gateway))
             (ID (Receipt sr)) =
           Some \<lparr> receipt = sr,
                   expiresAt = clock (example_collab (Responded 200 (Inr valid_answer))) +
                               getReceiptTTL example_env \<rparr>) \<and>
   200 \<in> set (statuses (fst (summarize_route example_env_cached example_codec
                                (example_collab (Responded 200 (Inr valid_answer)))
                                example_request newBufferedWriter example_gateway_cached))) \<and>
   (\<exists>sr :: SignedReceipt. ResponseHash (Service (Receipt sr)) =
           content_hash (example_collab (Responded 200 (Inr valid_answer))) ''Rold'')"
proof -
  let ?co = "example_collab (Responded 200 (Inr valid_answer))"
  let ?p = "summarize_route example_env example_codec ?co example_request newBufferedWriter example_gateway"
  let ?q = "summarize_route example_env_cached example_codec ?co example_request newBufferedWriter
              example_gateway_cached"
  have p: "?p = (fst ?p, snd ?p)" and q: "?q = (fst ?q, snd ?q)" by simp_all
  have hp: "200 \<in> set (statuses (fst ?p))"
    by (simp add: example_served_without_cache)
  have hq: "200 \<in> set (statuses (fst ?q))"
    by (simp add: example_served_from_cache)
  have wp: "written (fst ?p) = ''Rshort''"
    by (simp add: example_served_without_cache)
  have wq: "written (fst ?q) = ''Rold''"
    by (simp add: example_served_from_cache)
  from C5_receipt_hash_matches_body [OF p hp]
  have a: "\<exists>sr. ResponseHash (Service (Receipt sr)) = content_hash ?co ''Rshort'' \<and>
             receiptStore (snd ?p) (ID (Receipt sr)) =
               Some \<lparr> receipt = sr, expiresAt = clock ?co + getReceiptTTL example_env \<rparr>"
    unfolding wp by blast
  from C5_receipt_hash_matches_body [OF q hq]
  have b: "\<exists>sr :: SignedReceipt. ResponseHash (Service (Receipt sr)) = content_hash ?co ''Rold''"
    unfolding wq by blast
  show ?thesis
    using hp hq a b by blast
qed















lemma summarize_route_response:
  "fst (summarize_route e cd co r b g) =
     (if getCacheEnabled e then fst (CacheMiddleware e cd co r b (handleSummarize e cd co r) g)
      else fst (handleSummarize e cd co r None g))"
  by (simp add: summarize_route_def split: prod.splits option.splits)







lemma cache_hit_headers:
  "cache_hit e cd co r g = Some p \<Longrightarrow> r_signature r \<noteq> [] \<and> r_nonce r \<noteq> []"
  by (auto simp: cache_hit_def cache_lookup_def split: if_splits option.splits)

lemma accepted_request:
  assumes "summarize_route e cd co r b g = (ops, g1)" and "200 \<in> set (statuses ops)"
  shows "r_signature r \<noteq> [] \<and> r_nonce r \<noteq> [] \<and>
         (\<exists>vr pc. verifyPayment e co (r_signature r) (r_nonce r) = Inr (vr, pc) \<and> IsValid vr)"
proof -
  have handler: "r_signature r \<noteq> [] \<and> r_nonce r \<noteq> [] \<and>
         (\<exists>vr pc. verifyPayment e co (r_signature r) (r_nonce r) = Inr (vr, pc) \<and> IsValid vr)"
    if h: "handleSummarize e cd co r cb g = (ops0, g0)" and s: "200 \<in> set (statuses ops0)"
    for cb ops0 g0
    using handleSummarize_cases [OF h] s by auto
  show ?thesis
  proof (cases "getCacheEnabled e")
    case False
    with assms(1) have "handleSummarize e cd co r None g = (ops, g1)"
      by (simp add: summarize_route_def)
    from handler [OF this assms(2)] show ?thesis .
  next
    case True
    obtain ops0 sp g0 where
      cm: "CacheMiddleware e cd co r b (handleSummarize e cd co r) g = (ops0, sp, g0)"
      by (cases "CacheMiddleware e cd co r b (handleSummarize e cd co r) g")
    with assms(1) True have eq: "ops0 = ops"
      by (auto simp: summarize_route_def split: option.splits prod.splits)
    from CacheMiddleware_cases [OF cm] show ?thesis
    proof (elim disjE exE conjE)
      fix c
      assume "statuses ops0 = [c]" "c \<noteq> 200"
      with assms(2) eq show ?thesis by simp
    next
      fix cb
      assume "handleSummarize e cd co r cb g = (ops0, g0)"
      from handler [OF this] assms(2) eq show ?thesis by simp
    next
      fix vr :: VerifyResponse and pc body cached err
      assume "verifyPayment e co (r_signature r) (r_nonce r) = Inr (vr, pc)" "IsValid vr"
        "cache_hit e cd co r g = Some (body, cached)"
      then show ?thesis using cache_hit_headers by blast
    qed
  qed
qed

lemma generateAndSendReceipt_statuses:
  "generateAndSendReceipt e cd co path pc addr req ai g = (ops, err, g') \<Longrightarrow>
   statuses ops = [500] \<or> statuses ops = [200]"
  by (auto simp: generateAndSendReceipt_def Let_def statuses_c_JSON statuses_append statuses_c_Header
        split: sum.splits)

lemma handleSummarize_not_rejected:
  assumes "r_signature r \<noteq> []" and "r_nonce r \<noteq> []"
    and "verifyPayment e co (r_signature r) (r_nonce r) = Inr (vr, pc)" and "IsValid vr"
  shows "402 \<notin> set (statuses (fst (handleSummarize e cd co r cb g))) \<and>
         403 \<notin> set (statuses (fst (handleSummarize e cd co r cb g)))"
  using assms
  unfolding handleSummarize_def
  by (auto simp: statuses_c_JSON dest: generateAndSendReceipt_statuses
        split: sum.splits option.splits read_error.splits prod.splits)


lemma handleSummarize_not_rejected_dest:
  assumes "handleSummarize e cd co r cb g = (ops, g')"
    and "r_signature r \<noteq> []" and "r_nonce r \<noteq> []"
    and "verifyPayment e co (r_signature r) (r_nonce r) = Inr (vr, pc)" and "IsValid vr"
  shows "402 \<notin> set (statuses ops) \<and> 403 \<notin> set (statuses ops)"
  using handleSummarize_not_rejected [OF assms(2-5), of cd cb g] assms(1) by simp

lemma CacheMiddleware_not_rejected:
  assumes "r_signature r \<noteq> []" and "r_nonce r \<noteq> []"
    and "verifyPayment e co (r_signature r) (r_nonce r) = Inr (vr, pc)" and "IsValid vr"
  shows "402 \<notin> set (statuses (fst (CacheMiddleware e cd co r b (handleSummarize e cd co r) g))) \<and>
         403 \<notin> set (statuses (fst (CacheMiddleware e cd co r b (handleSummarize e cd co r) g)))"
proof -
  obtain ops sp g' where cm: "CacheMiddleware e cd co r b (handleSummarize e cd co r) g = (ops, sp, g')"
    by (cases "CacheMiddleware e cd co r b (handleSummarize e cd co r) g")
  have "402 \<notin> set (statuses ops) \<and> 403 \<notin> set (statuses ops)"
  proof (cases "cache_hit e cd co r g")
    case (Some p)
    obtain body cached where p: "p = (body, cached)" by (cases p)
    from cm CacheMiddleware_hit [OF Some [unfolded p], of b "handleSummarize e cd co r"] assms
    show ?thesis
      by (auto dest: generateAndSendReceipt_statuses split: prod.splits)
  next
    case None
    show ?thesis
    proof (cases "cache_miss e cd co r g")
      case (Some p)
      obtain body key where p: "p = (body, key)" by (cases p)
      obtain ops0 g0 where n: "handleSummarize e cd co r (Some body) g = (ops0, g0)"
        by (cases "handleSummarize e cd co r (Some body) g")
      from cm CacheMiddleware_miss [OF Some [unfolded p], of b "handleSummarize e cd co r"] n
      have "ops = ops0"
        by (auto split: if_splits sum.splits option.splits json.splits)
      with handleSummarize_not_rejected_dest [OF n assms] show ?thesis by simp
    next
      case nomiss: None
      from None nomiss have nl: "cache_lookup e cd co r g = None"
        by (auto simp: cache_hit_def cache_miss_def split: option.splits prod.splits sum.splits)
      show ?thesis
        using cm nl assms
        unfolding cache_lookup_def CacheMiddleware_def Let_def payload_too_large_def
        by (auto simp: statuses_append statuses_c_JSON statuses_c_Header
              dest: handleSummarize_not_rejected_dest
              split: if_splits sum.splits option.splits prod.splits read_error.splits)
    qed
  qed
  with cm show ?thesis by simp
qed

lemma handleSummarize_response_stateless:
  "fst (handleSummarize e cd co r cb g') = fst (handleSummarize e cd co r cb g)"
  unfolding handleSummarize_def generateAndSendReceipt_def storeReceipt_def Let_def
  by (auto split: sum.splits option.splits read_error.splits prod.splits)


text \<open>
  Claim C8. \<open>verifyPayment\<close> takes the signature, the nonce, the environment and the
  verifier's answer and nothing of the gateway's state: among the collaborators only the
  verifier matters, and the payment context it checks is built from the caller's nonce.
  So a request that was answered with 200 is, when replayed against whatever state the
  gateway is in afterwards, verified with the same outcome and never answered with 402
  or 403; without the cache the whole response is the same.
\<close>

theorem C8_replay_is_accepted_again:
  "(\<forall>co'. verifier co' = verifier co \<longrightarrow> verifyPayment e co' s n = verifyPayment e co s n) \<and>
   (\<forall>vr pc. verifyPayment e co s n = Inr (vr, pc) \<longrightarrow> pc = payment_context e n \<and> Nonce pc = n) \<and>
   (\<forall>ops g1. summarize_route e cd co r b g = (ops, g1) \<and> 200 \<in> set (statuses ops) \<longrightarrow>
      (\<forall>b' g'.
         402 \<notin> set (statuses (fst (summarize_route e cd co r b' g'))) \<and>
         403 \<notin> set (statuses (fst (summarize_route e cd co r b' g'))) \<and>
         (\<not> getCacheEnabled e \<longrightarrow>
            fst (summarize_route e cd co r b' g') = ops)))"
proof (intro conjI allI impI)
  fix co' :: collab
  assume "verifier co' = verifier co"
  then show "verifyPayment e co' s n = verifyPayment e co s n"
    by (simp add: verifyPayment_def)
next
  fix vr pc
  assume "verifyPayment e co s n = Inr (vr, pc)"
  then show "pc = payment_context e n"
    by (auto simp: verifyPayment_answer split: verifier_outcome.splits if_splits sum.splits)
next
  fix vr pc
  assume "verifyPayment e co s n = Inr (vr, pc)"
  then show "Nonce pc = n"
    by (auto simp: verifyPayment_answer payment_context_def
          split: verifier_outcome.splits if_splits sum.splits)
next
  fix ops g1 b' g'
  assume a: "summarize_route e cd co r b g = (ops, g1) \<and> 200 \<in> set (statuses ops)"
  from accepted_request [of e cd co r b g ops g1] a
  obtain vr pc where h: "r_signature r \<noteq> []" "r_nonce r \<noteq> []"
    "verifyPayment e co (r_signature r) (r_nonce r) = Inr (vr, pc)" "IsValid vr"
    by blast
  show "402 \<notin> set (statuses (fst (summarize_route e cd co r b' g')))"
    using handleSummarize_not_rejected [OF h, of cd None g']
      CacheMiddleware_not_rejected [OF h, of cd b' g']
    by (simp add: summarize_route_response)
  show "403 \<notin> set (statuses (fst (summarize_route e cd co r b' g')))"
    using handleSummarize_not_rejected [OF h, of cd None g']
      CacheMiddleware_not_rejected [OF h, of cd b' g']
    by (simp add: summarize_route_response)
  assume nc: "\<not> getCacheEnabled e"
  from a have "fst (summarize_route e cd co r b g) = ops" by simp
  with nc show "fst (summarize_route e cd co r b' g') = ops"
    using handleSummarize_response_stateless [of e cd co r None g' g]
    by (simp add: summarize_route_response)
qed


theorem C8_replay_is_accepted_again_witness:
  "200 \<in> set (statuses (fst (summarize_route example_env example_codec
                                (example_collab (Responded 200 (Inr valid_answer)))
                                example_request newBufferedWriter example_gateway))) \<and>
   \<not> getCacheEnabled example_env \<and>
   403 \<notin> set (statuses (fst (summarize_route example_env example_codec
                                (example_collab (Responded 200 (Inr valid_answer)))
                                example_request newBufferedWriter
                                (snd (summarize_route example_env example_codec
                                        (example_collab (Responded 200 (Inr valid_answer)))
                                        example_request newBufferedWriter example_gateway))))) \<and>
   fst (summarize_route example_env example_codec
          (example_collab (Responded 200 (Inr valid_answer)))
          example_request newBufferedWriter
          (snd (summarize_route example_env example_codec
                  (example_collab (Responded 200 (Inr valid_answer)))
                  example_request newBufferedWriter example_gateway))) =
   fst (summarize_route example_env example_codec
          (example_collab (Responded 200 (Inr valid_answer)))
          example_request newBufferedWriter example_gateway) \<and>
   200 \<in> set (statuses (fst (summarize_route example_env_cached example_codec
                                (example_collab (Responded 200 (Inr valid_answer)))
                                example_request newBufferedWriter example_gateway_cached))) \<and>
   403 \<notin> set (statuses (fst (summarize_route example_env_cached example_codec
                                (example_collab (Responded 200 (Inr valid_answer)))
                                example_request newBufferedWriter
                                (snd (summarize_route example_env_cached example_codec
                                        (example_collab (Responded 200 (Inr valid_answer)))
                                        example_request newBufferedWriter example_gateway_cached)))))"
proof -
  let ?co = "example_collab (Responded 200 (Inr valid_answer))"
  let ?p = "summarize_route example_env example_codec ?co example_request newBufferedWriter example_gateway"
  let ?q = "summarize_route example_env_cached example_codec ?co example_request newBufferedWriter
              example_gateway_cached"
  have p: "?p = (fst ?p, snd ?p)" and q: "?q = (fst ?q, snd ?q)" by simp_all
  have hp: "200 \<in> set (statuses (fst ?p))"
    by (simp add: example_served_without_cache)
  have hq: "200 \<in> set (statuses (fst ?q))"
    by (simp add: example_served_from_cache)
  have nc: "\<not> getCacheEnabled example_env"
    by (simp add: getCacheEnabled_def example_env_def ToLower_def)
  note T = C8_replay_is_accepted_again
  from T [of ?co example_env "r_signature example_request" "r_nonce example_request"
             example_codec example_request newBufferedWriter example_gateway]
  have "\<forall>ops g1. ?p = (ops, g1) \<and> 200 \<in> set (statuses ops) \<longrightarrow>
      (\<forall>b' g'.
         402 \<notin> set (statuses (fst (summarize_route example_env example_codec ?co example_request b' g'))) \<and>
         403 \<notin> set (statuses (fst (summarize_route example_env example_codec ?co example_request b' g'))) \<and>
         (\<not> getCacheEnabled example_env \<longrightarrow>
            fst (summarize_route example_env example_codec ?co example_request b' g') = ops))"
    by (elim conjE)
  with p hp nc have a:
    "403 \<notin> set (statuses (fst (summarize_route example_env example_codec ?co example_request
                                   newBufferedWriter (snd ?p)))) \<and>
     fst (summarize_route example_env example_codec ?co example_request newBufferedWriter (snd ?p)) = fst ?p"
    by metis
  from T [of ?co example_env_cached "r_signature example_request" "r_nonce example_request"
             example_codec example_request newBufferedWriter example_gateway_cached]
  have "\<forall>ops g1. ?q = (ops, g1) \<and> 200 \<in> set (statuses ops) \<longrightarrow>
      (\<forall>b' g'.
         402 \<notin> set (statuses (fst (summarize_route example_env_cached example_codec ?co example_request b' g'))) \<and>
         403 \<notin> set (statuses (fst (summarize_route example_env_cached example_codec ?co example_request b' g'))) \<and>
         (\<not> getCacheEnabled example_env_cached \<longrightarrow>
            fst (summarize_route example_env_cached example_codec ?co example_request b' g') = ops))"
    by (elim conjE)
  with q hq have b:
    "403 \<notin> set (statuses (fst (summarize_route example_env_cached example_codec ?co example_request
                                   newBufferedWriter (snd ?q))))"
    by metis
  note a1 = a [THEN conjunct1] and a2 = a [THEN conjunct2]
  show ?thesis
    using hp nc a1 a2 hq b by (intro conjI)
qed

section \<open>Properties of the token bucket limiter\<close>

lemma available_fresh: "buckets tb key = None \<Longrightarrow> available tb key now = of_int (capacity tb)"
  by (simp add: available_def getBucket_def refill_def)

lemma available_le_capacity: "available tb key now \<le> of_int (capacity tb)"
  by (simp add: available_def refill_def)

lemma AllowN_result:
  "fst (AllowN tb key n now) \<longleftrightarrow> of_int n \<le> available tb key now"
  by (simp add: AllowN_def available_def Let_def)

lemma AllowN_held:
  "held (snd (AllowN tb key n now)) key =
     Some (if of_int n \<le> available tb key now then available tb key now - of_int n
           else available tb key now)"
  by (simp add: AllowN_def available_def held_def Let_def refill_def)

lemma AllowN_params:
  "capacity (snd (AllowN tb key n now)) = capacity tb \<and>
   refillRate (snd (AllowN tb key n now)) = refillRate tb"
  by (simp add: AllowN_def Let_def)

lemma AllowN_other_key:
  "key' \<noteq> key \<Longrightarrow> buckets (snd (AllowN tb key n now)) key' = buckets tb key'"
  by (simp add: AllowN_def Let_def)

lemma AllowN_later:
  "0 \<le> n \<Longrightarrow>
   available (snd (AllowN tb key n now)) key later =
     min (of_int (capacity tb))
       ((if of_int n \<le> available tb key now then available tb key now - of_int n
         else available tb key now) + (later - now) * refillRate tb)"
  by (simp add: AllowN_def available_def Let_def refill_def getBucket_def)


lemma Allow_step:
  "TokenBucket_Allow tb key now = (ok, tb') \<Longrightarrow>
   (ok \<longleftrightarrow> 1 \<le> available tb key now) \<and>
   capacity tb' = capacity tb \<and> refillRate tb' = refillRate tb \<and>
   (\<forall>later. available tb' key later =
      min (of_int (capacity tb))
        ((if 1 \<le> available tb key now then available tb key now - 1 else available tb key now) +
         (later - now) * refillRate tb))"
  using AllowN_result [of tb key 1 now] AllowN_params [of tb key 1 now]
    AllowN_later [of 1 tb key now]
  by (auto simp: TokenBucket_Allow_def)

lemma admissions_exhaust:
  "available tb key now = of_nat m \<Longrightarrow>
   fst (admissions tb key now (Suc m)) = replicate m True @ [False] \<and>
   capacity (snd (admissions tb key now (Suc m))) = capacity tb \<and>
   refillRate (snd (admissions tb key now (Suc m))) = refillRate tb \<and>
   (\<forall>later. available (snd (admissions tb key now (Suc m))) key later =
      min (of_int (capacity tb)) ((later - now) * refillRate tb))"
proof (induction m arbitrary: tb)
  case 0
  obtain ok tb' where a: "TokenBucket_Allow tb key now = (ok, tb')"
    by (cases "TokenBucket_Allow tb key now")
  from Allow_step [OF a] "0.prems" show ?case
    by (simp add: a)
next
  case (Suc m)
  obtain ok tb' where a: "TokenBucket_Allow tb key now = (ok, tb')"
    by (cases "TokenBucket_Allow tb key now")
  note st = Allow_step [OF a]
  from Suc.prems have av: "available tb key now = of_nat m + 1" by simp
  from st av have ok: "ok" by simp
  have le: "(of_nat m :: rat) + 1 \<le> of_int (capacity tb)"
    using available_le_capacity [of tb key now] av by simp
  from st av have later: "\<And>later. available tb' key later =
      min (of_int (capacity tb)) (of_nat m + (later - now) * refillRate tb)"
    by simp
  from later [of now] le have av': "available tb' key now = of_nat m"
    by simp
  note IH = Suc.IH [OF av']
  from st have par: "capacity tb' = capacity tb" "refillRate tb' = refillRate tb" by simp_all
  obtain oks tb'' where r: "admissions tb' key now (Suc m) = (oks, tb'')"
    by (cases "admissions tb' key now (Suc m)")
  have unf: "admissions tb key now (Suc (Suc m)) = (ok # oks, tb'')"
    using a r by (simp del: admissions.simps add: admissions.simps(2) [of tb key now "Suc m"])
  from IH r par ok show ?case
    unfolding unf by simp
qed


text \<open>
  Claim C3, as stated for every capacity, fails for a bucket of capacity 0: with 60
  requests per minute (one token per second) and burst 0 the first admission is denied,
  as the claim says, but the bucket is capped at its capacity, so no admission succeeds
  after \<open>1 / R\<close> = 1 second either.
\<close>

theorem C3_zero_capacity_counterexample:
  "refillRate (NewTokenBucket 60 0) = 1 \<and>
   fst (admissions (NewTokenBucket 60 0) ''k'' 0 (Suc 0)) = [False] \<and>
   \<not> fst (TokenBucket_Allow (snd (admissions (NewTokenBucket 60 0) ''k'' 0 (Suc 0))) ''k'' 1)"
  by (simp add: NewTokenBucket_def TokenBucket_Allow_def AllowN_def getBucket_def refill_def Let_def)

text \<open>
  Claim C3, amended. A key without a bucket has the full capacity available. \<open>Allow\<close>
  succeeds iff at least one token is available and then leaves one token less, and
  otherwise leaves the tokens as they are; \<open>AllowN\<close> succeeds iff \<open>n\<close> tokens are
  available and then leaves \<open>n\<close> tokens less, and otherwise deducts nothing. For a
  capacity \<open>B\<close> of at least 1 and a positive refill rate \<open>R\<close>: from a cold start
  exactly \<open>B\<close> admissions in a row succeed and the next is denied, and an admission at
  any instant from \<open>1 / R\<close> seconds later on succeeds.
\<close>

theorem C3_token_bucket_admission:
  "(buckets tb key = None \<longrightarrow> available tb key now = of_int (capacity tb)) \<and>
   (fst (TokenBucket_Allow tb key now) \<longleftrightarrow> 1 \<le> available tb key now) \<and>
   held (snd (TokenBucket_Allow tb key now)) key =
     Some (if 1 \<le> available tb key now then available tb key now - 1 else available tb key now) \<and>
   (fst (AllowN tb key n now) \<longleftrightarrow> of_int n \<le> available tb key now) \<and>
   held (snd (AllowN tb key n now)) key =
     Some (if of_int n \<le> available tb key now then available tb key now - of_int n
           else available tb key now) \<and>
   (buckets tb key = None \<and> capacity tb = int B \<and> 1 \<le> B \<and> 0 < refillRate tb \<longrightarrow>
      fst (admissions tb key now (Suc B)) = replicate B True @ [False] \<and>
      (\<forall>later. now + 1 / refillRate tb \<le> later \<longrightarrow>
         fst (TokenBucket_Allow (snd (admissions tb key now (Suc B))) key later)))"
proof (intro conjI impI)
  show "available tb key now = of_int (capacity tb)" if "buckets tb key = None"
    using that by (rule available_fresh)
  show "fst (TokenBucket_Allow tb key now) \<longleftrightarrow> 1 \<le> available tb key now"
    using AllowN_result [of tb key 1 now] by (simp add: TokenBucket_Allow_def)
  show "held (snd (TokenBucket_Allow tb key now)) key =
     Some (if 1 \<le> available tb key now then available tb key now - 1 else available tb key now)"
    using AllowN_held [of tb key 1 now] by (simp add: TokenBucket_Allow_def)
  show "fst (AllowN tb key n now) \<longleftrightarrow> of_int n \<le> available tb key now"
    by (rule AllowN_result)
  show "held (snd (AllowN tb key n now)) key =
     Some (if of_int n \<le> available tb key now then available tb key now - of_int n
           else available tb key now)"
    by (rule AllowN_held)
next
  assume a: "buckets tb key = None \<and> capacity tb = int B \<and> 1 \<le> B \<and> 0 < refillRate tb"
  then have av: "available tb key now = of_nat B"
    using available_fresh [of tb key now] by simp
  note ex = admissions_exhaust [OF av]
  from ex show "fst (admissions tb key now (Suc B)) = replicate B True @ [False]"
    by simp
  show "\<forall>later. now + 1 / refillRate tb \<le> later \<longrightarrow>
         fst (TokenBucket_Allow (snd (admissions tb key now (Suc B))) key later)"
  proof (intro allI impI)
    fix later
    assume l: "now + 1 / refillRate tb \<le> later"
    let ?tb = "snd (admissions tb key now (Suc B))"
    from a have r: "0 < refillRate tb" by simp
    from l have "1 / refillRate tb \<le> later - now" by simp
    with r have ge: "1 \<le> (later - now) * refillRate tb"
      by (simp add: pos_divide_le_eq)
    from a have cap: "(1::rat) \<le> of_int (capacity tb)" by simp
    from ex have "available ?tb key later = min (of_int (capacity tb)) ((later - now) * refillRate tb)"
      by simp
    with ge cap have "1 \<le> available ?tb key later" by simp
    then show "fst (TokenBucket_Allow ?tb key later)"
      using AllowN_result [of ?tb key 1 later] by (simp add: TokenBucket_Allow_def)
  qed
qed

theorem C3_token_bucket_admission_witness:
  "buckets (NewTokenBucket 60 5) ''k'' = None \<and>
   capacity (NewTokenBucket 60 5) = int 5 \<and> (1::nat) \<le> 5 \<and> 0 < refillRate (NewTokenBucket 60 5) \<and>
   available (NewTokenBucket 60 5) ''k'' 0 = 5 \<and>
   fst (admissions (NewTokenBucket 60 5) ''k'' 0 (Suc 5)) = replicate 5 True @ [False] \<and>
   0 + 1 / refillRate (NewTokenBucket 60 5) \<le> 1 \<and>
   fst (TokenBucket_Allow (snd (admissions (NewTokenBucket 60 5) ''k'' 0 (Suc 5))) ''k'' 1)"
proof -
  have h: "buckets (NewTokenBucket 60 5) ''k'' = None \<and>
           capacity (NewTokenBucket 60 5) = int 5 \<and> (1::nat) \<le> 5 \<and> 0 < refillRate (NewTokenBucket 60 5)"
    by (simp add: NewTokenBucket_def)
  have l: "0 + 1 / refillRate (NewTokenBucket 60 5) \<le> 1"
    by (simp add: NewTokenBucket_def)
  note T = C3_token_bucket_admission [of "NewTokenBucket 60 5" "''k''" 0 _ 5]
  from T h have a: "available (NewTokenBucket 60 5) ''k'' 0 = 5"
    by simp
  from T h have b: "fst (admissions (NewTokenBucket 60 5) ''k'' 0 (Suc 5)) = replicate 5 True @ [False]"
    by blast
  from T h l have c: "fst (TokenBucket_Allow (snd (admissions (NewTokenBucket 60 5) ''k'' 0 (Suc 5))) ''k'' 1)"
    by blast
  show ?thesis
    using h l a b c by (intro conjI) simp_all
qed
end
